theory Spec2Isabelle
  imports Complex_Main "HOL-Library.Sublist"
begin

section \<open>Python strings\<close>

text \<open>
  A Python \<open>str\<close> is modelled as a \<open>string\<close>: a list of code points below 256
  (Latin-1). \<open>str.lower\<close> maps A..Z and the Latin-1 capitals (U+00C0..U+00DE without
  the multiplication sign U+00D7) to the letter 32 places further on; every other
  code point below 256 is its own lower case.
\<close>

definition py_lower_char :: "char \<Rightarrow> char" where
  "py_lower_char c =
     (let n = (of_char c :: nat)
      in if (65 \<le> n \<and> n \<le> 90) \<or> (192 \<le> n \<and> n \<le> 222 \<and> n \<noteq> 215)
         then char_of (n + 32) else c)"

definition py_lower :: "string \<Rightarrow> string" where
  "py_lower s = map py_lower_char s"

text \<open>
  \<open>str.strip()\<close> without an argument removes leading and trailing white space; below
  256 the code points with \<open>str.isspace\<close> are 9..13, 28..32, 133 and 160.
\<close>

definition py_isspace :: "char \<Rightarrow> bool" where
  "py_isspace c =
     (let n = (of_char c :: nat)
      in (9 \<le> n \<and> n \<le> 13) \<or> (28 \<le> n \<and> n \<le> 32) \<or> n = 133 \<or> n = 160)"

definition py_lstrip :: "string \<Rightarrow> string" where
  "py_lstrip s = dropWhile py_isspace s"

definition py_rstrip :: "string \<Rightarrow> string" where
  "py_rstrip s = rev (dropWhile py_isspace (rev s))"

definition py_strip :: "string \<Rightarrow> string" where
  "py_strip s = py_rstrip (py_lstrip s)"

text \<open>\<open>s.startswith(p)\<close>: the first \<open>len(p)\<close> characters of \<open>s\<close> are \<open>p\<close>.\<close>

fun py_startswith :: "string \<Rightarrow> string \<Rightarrow> bool" where
  "py_startswith s [] = True"
| "py_startswith [] (p # ps) = False"
| "py_startswith (c # cs) (p # ps) = (c = p \<and> py_startswith cs ps)"

text \<open>\<open>k in s\<close> on strings: \<open>k\<close> starts at some position of \<open>s\<close>.\<close>

fun py_in :: "string \<Rightarrow> string \<Rightarrow> bool" where
  "py_in k [] = (k = [])"
| "py_in k (c # cs) = (py_startswith (c # cs) k \<or> py_in k cs)"

section \<open>The SQL safety validator\<close>

definition dangerous_keywords :: "string list" where
  "dangerous_keywords =
     [''drop'', ''delete'', ''truncate'', ''alter'', ''create'', ''insert'', ''update'',
      ''grant'', ''revoke'', ''exec'', ''execute'', ''sp_'', ''xp_'', ''--'', ''/*'', ''*/'']"

text \<open>
  The loop \<open>for keyword in dangerous_keywords: if keyword in sql_lower: return False\<close>;
  the result is \<open>False\<close> when the loop returned, \<open>True\<close> when it ran to its end.
\<close>

fun keyword_loop :: "string list \<Rightarrow> string \<Rightarrow> bool" where
  "keyword_loop [] sql_lower = True"
| "keyword_loop (keyword # rest) sql_lower =
     (if py_in keyword sql_lower then False else keyword_loop rest sql_lower)"

text \<open>\<open>validate_sql_safety\<close> of \<open>mcp/employees_server.py\<close>.\<close>

definition validate_sql_safety :: "string \<Rightarrow> bool" where
  "validate_sql_safety sql =
     (let sql_lower = py_strip (py_lower sql)
      in if \<not> keyword_loop dangerous_keywords sql_lower then False
         else if \<not> py_startswith sql_lower ''select'' then False
         else True)"

text \<open>\<open>EmployeeDBInterface.validate_sql_safety\<close> of \<open>mcp/simple_db_interface.py\<close>.\<close>

definition EmployeeDBInterface_validate_sql_safety :: "string \<Rightarrow> bool" where
  "EmployeeDBInterface_validate_sql_safety sql =
     (let sql_lower = py_strip (py_lower sql)
      in if \<not> keyword_loop dangerous_keywords sql_lower then False
         else if \<not> py_startswith sql_lower ''select'' then False
         else True)"

section \<open>Python exceptions and SQLite integers\<close>

text \<open>
  The exceptions that the modelled code raises or lets through. A function that can
  raise returns a sum, \<open>Inl\<close> the exception.
\<close>

datatype exception =
    KeyError string
  | OverflowError
  | OperationalError
  | TypeError
  | ValueError string
  | IntegrityError

text \<open>
  A Python \<open>int\<close> bound to a statement parameter must fit SQLite's 64-bit INTEGER;
  otherwise binding it raises \<open>OverflowError\<close>.
\<close>

definition sqlite_integer :: "int \<Rightarrow> bool" where
  "sqlite_integer n = (- (2 ^ 63) \<le> n \<and> n < 2 ^ 63)"

fun bindable :: "int option \<Rightarrow> bool" where
  "bindable None = True"
| "bindable (Some n) = sqlite_integer n"

section \<open>The two tables\<close>

text \<open>
  The rows of \<open>departments\<close> and \<open>employees\<close> as \<open>app/models/employee.py\<close> declares
  them. A nullable column holds an \<open>option\<close>. A value of the \<open>Float\<close> column
  \<open>salary\<close> is a finite double, which is a real number; the arithmetic the engine
  does on doubles is not defined here but taken as a parameter (see \<open>engine_average\<close>).
\<close>

record department =
  dept_id :: int
  dept_name :: string

record employee =
  emp_id :: int
  emp_name :: string
  emp_department_id :: "int option"
  emp_salary :: "real option"
  emp_hire_date :: "string option"

text \<open>
  The database file: the two tables, and whether the engine enforces foreign keys
  (SQLite's \<open>PRAGMA foreign_keys\<close>, off unless switched on).
\<close>

record database =
  employees :: "employee list"
  departments :: "department list"
  foreign_keys :: bool

section \<open>The SQL of the query-tool adapter\<close>

text \<open>
  One row of
  \<open>SELECT e.id, e.name, e.department_id, d.name as department_name, e.salary, e.hire_date\<close>,
  which both adapters turn into a dictionary with \<open>dict(zip(columns, row))\<close>.
\<close>

record emp_row =
  row_id :: int
  row_name :: string
  row_department_id :: "int option"
  row_department_name :: "string option"
  row_salary :: "real option"
  row_hire_date :: "string option"

definition select_columns :: "employee \<Rightarrow> string option \<Rightarrow> emp_row" where
  "select_columns e dname =
     \<lparr>row_id = emp_id e, row_name = emp_name e, row_department_id = emp_department_id e,
      row_department_name = dname, row_salary = emp_salary e,
      row_hire_date = emp_hire_date e\<rparr>"

text \<open>
  \<open>FROM employees e LEFT JOIN departments d ON e.department_id = d.id\<close>: each employee
  with every department whose id it references, or once with no department when there
  is none (a NULL reference equals no id).
\<close>

definition left_join_row :: "department list \<Rightarrow> employee \<Rightarrow> emp_row list" where
  "left_join_row ds e =
     (case filter (\<lambda>d. emp_department_id e = Some (dept_id d)) ds of
        [] \<Rightarrow> [select_columns e None]
      | m # ms \<Rightarrow> map (\<lambda>d. select_columns e (Some (dept_name d))) (m # ms))"

definition left_join :: "database \<Rightarrow> emp_row list" where
  "left_join db = concat (map (left_join_row (departments db)) (employees db))"

text \<open>
  SQLite's \<open>LIKE\<close> (no \<open>ESCAPE\<close>, \<open>case_sensitive_like\<close> at its default). The engine
  reads pattern and text as C strings, up to the first NUL character. In the pattern
  \<open>%\<close> matches any run of characters, \<open>_\<close> matches one character, and any other
  character matches itself, upper and lower case of the ASCII letters being equal.
\<close>

definition c_string :: "string \<Rightarrow> string" where
  "c_string s = takeWhile (\<lambda>c. c \<noteq> CHR 0x00) s"

definition sqlite_fold :: "char \<Rightarrow> char" where
  "sqlite_fold c =
     (let n = (of_char c :: nat) in if 65 \<le> n \<and> n \<le> 90 then char_of (n + 32) else c)"

fun pattern_compare :: "string \<Rightarrow> string \<Rightarrow> bool" where
  "pattern_compare [] s = (s = [])"
| "pattern_compare (p # ps) [] = (p = CHR ''%'' \<and> pattern_compare ps [])"
| "pattern_compare (p # ps) (c # cs) =
     (if p = CHR ''%'' then pattern_compare ps (c # cs) \<or> pattern_compare (p # ps) cs
      else (p = CHR ''_'' \<or> sqlite_fold p = sqlite_fold c) \<and> pattern_compare ps cs)"

definition sqlite_like :: "string \<Rightarrow> string \<Rightarrow> bool" where
  "sqlite_like pat s = pattern_compare (c_string pat) (c_string s)"

text \<open>
  A pattern of more than 50000 bytes is refused: evaluating \<open>LIKE\<close> with it raises
  \<open>OperationalError\<close>. A code point below 128 is one byte of UTF-8, any other code
  point below 256 is two.
\<close>

definition utf8_bytes :: "string \<Rightarrow> int" where
  "utf8_bytes s = sum_list (map (\<lambda>c. if (of_char c :: nat) < 128 then 1 else 2) s)"

definition too_complex :: "string \<Rightarrow> bool" where
  "too_complex pat = (50000 < utf8_bytes pat)"

text \<open>
  The conditions that \<open>search_employees\<close> appends to \<open>WHERE 1=1\<close>, each with its
  parameter. \<open>d.name LIKE ?\<close> is NULL, hence not true, on a row without department.
\<close>

datatype condition = E_name_like string | D_name_like string

fun pattern_of :: "condition \<Rightarrow> string" where
  "pattern_of (E_name_like pat) = pat"
| "pattern_of (D_name_like pat) = pat"

fun holds :: "condition \<Rightarrow> emp_row \<Rightarrow> bool" where
  "holds (E_name_like pat) r = sqlite_like pat (row_name r)"
| "holds (D_name_like pat) r =
     (case row_department_name r of None \<Rightarrow> False | Some dn \<Rightarrow> sqlite_like pat dn)"

definition sql_where :: "condition list \<Rightarrow> emp_row list \<Rightarrow> emp_row list" where
  "sql_where conds rows = filter (\<lambda>r. list_all (\<lambda>c. holds c r) conds) rows"

text \<open>
  \<open>ORDER BY e.id\<close> and \<open>LIMIT ?\<close>, the limit being a SQLite integer; a negative
  limit is no limit in SQLite.
\<close>

definition order_by_id :: "emp_row list \<Rightarrow> emp_row list" where
  "order_by_id rows = sort_key row_id rows"

definition sql_limit :: "int \<Rightarrow> 'a list \<Rightarrow> 'a list" where
  "sql_limit n rows = (if n < 0 then rows else take (nat n) rows)"

text \<open>
  What the model takes from the engine as parameters:
  \<^item> \<open>engine_execute\<close>: the engine on a free-text statement, as \<open>safe_query\<close> runs it;
    it answers with the message of an \<open>sqlite3.Error\<close> or with the rows, each a list
    of column names and values;
  \<^item> \<open>engine_average\<close>: \<open>AVG\<close> on the values of a column that are not NULL, of which
    there are at least two: a sum and a quotient in double precision;
  \<^item> \<open>engine_reaches\<close>: whether, on this database, with these conditions and this
    limit, the engine comes to evaluate a \<open>LIKE\<close>; that depends on its plan. It
    matters only when a pattern is refused.
\<close>

datatype sqlval = Sql_null | Sql_integer int | Sql_real real | Sql_text string | Sql_blob string

type_synonym sql_row = "(string \<times> sqlval) list"

record engine =
  engine_execute :: "database \<Rightarrow> string \<Rightarrow> string + sql_row list"
  engine_average :: "real list \<Rightarrow> real"
  engine_reaches :: "database \<Rightarrow> condition list \<Rightarrow> int \<Rightarrow> bool"

text \<open>
  The search statement with its conditions and its limit. With a refused pattern
  among the conditions the statement raises as soon as a \<open>LIKE\<close> is evaluated; when
  none is, no row has passed the conditions and the result is empty.
\<close>

definition select_search ::
  "engine \<Rightarrow> database \<Rightarrow> condition list \<Rightarrow> int \<Rightarrow> exception + emp_row list" where
  "select_search eng db conds limit =
     (if list_ex (\<lambda>c. too_complex (pattern_of c)) conds
      then (if engine_reaches eng db conds limit then Inl OperationalError else Inr [])
      else Inr (sql_limit limit (order_by_id (sql_where conds (left_join db)))))"

text \<open>
  The aggregates of \<open>get_employee_stats\<close>. \<open>COUNT(*)\<close> counts rows; \<open>MIN\<close> and
  \<open>MAX\<close> run over the rows with an accumulator; \<open>AVG\<close>, \<open>MIN\<close> and \<open>MAX\<close> skip NULL
  and are NULL when no value is left. \<open>AVG\<close> of one value is that value (the sum is
  the value and dividing a double by 1 is exact); of more values it is the engine's
  average.
\<close>

definition count_star :: "'a list \<Rightarrow> int" where
  "count_star rows = foldl (\<lambda>n r. n + 1) 0 rows"

fun non_null :: "'a option list \<Rightarrow> 'a list" where
  "non_null [] = []"
| "non_null (None # vs) = non_null vs"
| "non_null (Some x # vs) = x # non_null vs"

definition sql_avg :: "(real list \<Rightarrow> real) \<Rightarrow> real option list \<Rightarrow> real option" where
  "sql_avg average vs =
     (case non_null vs of
        [] \<Rightarrow> None
      | [x] \<Rightarrow> Some x
      | x # y # xs \<Rightarrow> Some (average (x # y # xs)))"

fun min_step :: "real option \<Rightarrow> real option \<Rightarrow> real option" where
  "min_step acc None = acc"
| "min_step None (Some x) = Some x"
| "min_step (Some m) (Some x) = Some (if x < m then x else m)"

definition sql_min :: "real option list \<Rightarrow> real option" where
  "sql_min vs = foldl min_step None vs"

fun max_step :: "real option \<Rightarrow> real option \<Rightarrow> real option" where
  "max_step acc None = acc"
| "max_step None (Some x) = Some x"
| "max_step (Some m) (Some x) = Some (if x > m then x else m)"

definition sql_max :: "real option list \<Rightarrow> real option" where
  "sql_max vs = foldl max_step None vs"

record stats =
  total_employees :: int
  avg_salary :: "real option"
  min_salary :: "real option"
  max_salary :: "real option"

definition select_stats :: "engine \<Rightarrow> employee list \<Rightarrow> stats" where
  "select_stats eng rows =
     \<lparr>total_employees = count_star rows,
      avg_salary = sql_avg (engine_average eng) (map emp_salary rows),
      min_salary = sql_min (map emp_salary rows),
      max_salary = sql_max (map emp_salary rows)\<rparr>"

text \<open>\<open>SELECT * FROM departments ORDER BY id\<close>.\<close>

definition select_departments :: "database \<Rightarrow> department list" where
  "select_departments db = sort_key dept_id (departments db)"

text \<open>Python's truth value of an \<open>Optional[int]\<close>, and a default for an absent argument.\<close>

fun truthy :: "int option \<Rightarrow> bool" where
  "truthy None = False"
| "truthy (Some n) = (n \<noteq> 0)"

definition default_arg :: "'a \<Rightarrow> 'a option \<Rightarrow> 'a" where
  "default_arg d a = (case a of None \<Rightarrow> d | Some v \<Rightarrow> v)"

text \<open>The search conditions, built as both adapters build them.\<close>

definition search_conditions :: "string \<Rightarrow> string \<Rightarrow> condition list" where
  "search_conditions name department =
     (let params = [];
          params = (if name \<noteq> [] then params @ [E_name_like (''%'' @ name @ ''%'')]
                    else params);
          params = (if department \<noteq> []
                    then params @ [D_name_like (''%'' @ department @ ''%'')]
                    else params)
      in params)"

section \<open>The directly callable adapter (\<open>mcp/simple_db_interface.py\<close>)\<close>

text \<open>
  An argument with a default in the signature is an \<open>option\<close>: \<open>None\<close> when the caller
  leaves it out. A method returns \<open>Inl\<close> the exception it raises.
\<close>

definition EmployeeDBInterface_list_employees ::
  "database \<Rightarrow> int option \<Rightarrow> exception + emp_row list" where
  "EmployeeDBInterface_list_employees db limit_arg =
     (let limit = default_arg 100 limit_arg
      in if \<not> sqlite_integer limit then Inl OverflowError
         else Inr (sql_limit limit (order_by_id (left_join db))))"

text \<open>\<open>WHERE e.id = ?\<close> and \<open>fetchone()\<close>: the first row, \<open>None\<close> when there is none.\<close>

definition EmployeeDBInterface_get_employee ::
  "database \<Rightarrow> int \<Rightarrow> exception + emp_row option" where
  "EmployeeDBInterface_get_employee db employee_id =
     (if \<not> sqlite_integer employee_id then Inl OverflowError
      else case filter (\<lambda>r. row_id r = employee_id) (left_join db) of
             [] \<Rightarrow> Inr None
           | row # rest \<Rightarrow> Inr (Some row))"

definition EmployeeDBInterface_search_employees ::
  "engine \<Rightarrow> database \<Rightarrow> string option \<Rightarrow> string option \<Rightarrow> int option \<Rightarrow>
     exception + emp_row list" where
  "EmployeeDBInterface_search_employees eng db name_arg department_arg limit_arg =
     (let name = default_arg [] name_arg;
          department = default_arg [] department_arg;
          limit = default_arg 50 limit_arg
      in if \<not> sqlite_integer limit then Inl OverflowError
         else select_search eng db (search_conditions name department) limit)"

definition EmployeeDBInterface_list_departments :: "database \<Rightarrow> department list" where
  "EmployeeDBInterface_list_departments db = select_departments db"

definition EmployeeDBInterface_get_employee_stats ::
  "engine \<Rightarrow> database \<Rightarrow> int option \<Rightarrow> exception + stats" where
  "EmployeeDBInterface_get_employee_stats eng db department_id =
     (if truthy department_id
      then (if \<not> bindable department_id then Inl OverflowError
            else Inr (select_stats eng
                        (filter (\<lambda>e. emp_department_id e = department_id) (employees db))))
      else Inr (select_stats eng (employees db)))"

text \<open>\<open>safe_query\<close> raises \<open>ValueError\<close> with a message or returns the rows.\<close>

definition EmployeeDBInterface_safe_query ::
  "engine \<Rightarrow> database \<Rightarrow> string \<Rightarrow> exception + sql_row list" where
  "EmployeeDBInterface_safe_query eng db query =
     (if \<not> EmployeeDBInterface_validate_sql_safety query
      then Inl (ValueError
                  ''Query contains unsafe operations. Only SELECT statements are allowed.'')
      else case engine_execute eng db query of
             Inl e \<Rightarrow> Inl (ValueError (''SQL Error: '' @ e))
           | Inr rows \<Rightarrow> Inr rows)"

section \<open>The protocol-server adapter (\<open>mcp/employees_server.py\<close>)\<close>

text \<open>
  The \<open>arguments\<close> dictionary of a tool call: a key is either absent or carries a
  value of the type the tool's schema gives it.
\<close>

record arguments =
  arg_limit :: "int option"
  arg_employee_id :: "int option"
  arg_name :: "string option"
  arg_department :: "string option"
  arg_department_id :: "int option"
  arg_query :: "string option"

text \<open>
  What \<open>json.dumps\<close> is applied to, and the \<open>TextContent\<close> a tool call returns: the
  dumped value or a plain message. \<open>json.dumps\<close> raises \<open>TypeError\<close> on a value of
  type \<open>bytes\<close>, which is what a BLOB is in Python; every other value of a row is a
  number, a string or \<open>None\<close> and is dumped.
\<close>

datatype json =
    Json_employees "emp_row list"
  | Json_employee emp_row
  | Json_departments "department list"
  | Json_stats stats
  | Json_rows "sql_row list"

datatype text_content = Json_dumps json | Text string

fun is_blob :: "sqlval \<Rightarrow> bool" where
  "is_blob (Sql_blob b) = True"
| "is_blob v = False"

fun serializable :: "json \<Rightarrow> bool" where
  "serializable (Json_rows rows) = (\<not> list_ex (\<lambda>row. list_ex (\<lambda>cv. is_blob (snd cv)) row) rows)"
| "serializable j = True"

text \<open>\<open>[TextContent(type="text", text=json.dumps(result, indent=2))]\<close>.\<close>

definition dumps_content :: "json \<Rightarrow> exception + text_content list" where
  "dumps_content result = (if serializable result then Inr [Json_dumps result] else Inl TypeError)"

definition handle_call_tool ::
  "engine \<Rightarrow> database \<Rightarrow> string \<Rightarrow> arguments \<Rightarrow> exception + text_content list" where
  "handle_call_tool eng db name arguments =
     (if name = ''list_employees'' then
        (let limit = default_arg 100 (arg_limit arguments)
         in if \<not> sqlite_integer limit then Inl OverflowError
            else dumps_content
                   (Json_employees (sql_limit limit (order_by_id (left_join db)))))
      else if name = ''get_employee'' then
        (case arg_employee_id arguments of
           None \<Rightarrow> Inl (KeyError ''employee_id'')
         | Some employee_id \<Rightarrow>
             if \<not> sqlite_integer employee_id then Inl OverflowError
             else (case filter (\<lambda>r. row_id r = employee_id) (left_join db) of
                     [] \<Rightarrow> Inr [Text ''Employee not found'']
                   | row # rest \<Rightarrow> dumps_content (Json_employee row)))
      else if name = ''search_employees'' then
        (let name_filter = default_arg [] (arg_name arguments);
             department_filter = default_arg [] (arg_department arguments);
             limit = default_arg 50 (arg_limit arguments)
         in if \<not> sqlite_integer limit then Inl OverflowError
            else (case select_search eng db
                         (search_conditions name_filter department_filter) limit of
                    Inl e \<Rightarrow> Inl e
                  | Inr result \<Rightarrow> dumps_content (Json_employees result)))
      else if name = ''list_departments'' then
        dumps_content (Json_departments (select_departments db))
      else if name = ''get_employee_stats'' then
        (let department_id = arg_department_id arguments
         in if truthy department_id
            then (if \<not> bindable department_id then Inl OverflowError
                  else dumps_content
                         (Json_stats
                            (select_stats eng
                               (filter (\<lambda>e. emp_department_id e = department_id)
                                  (employees db)))))
            else dumps_content (Json_stats (select_stats eng (employees db))))
      else if name = ''safe_query'' then
        (case arg_query arguments of
           None \<Rightarrow> Inl (KeyError ''query'')
         | Some query \<Rightarrow>
             if \<not> validate_sql_safety query
             then Inr [Text ''Error: Query contains unsafe operations. Only SELECT statements are allowed.'']
             else (case engine_execute eng db query of
                     Inl e \<Rightarrow> Inr [Text (''SQL Error: '' @ e)]
                   | Inr result \<Rightarrow> dumps_content (Json_rows result)))
      else Inr [Text (''Unknown tool: '' @ name)])"

section \<open>The web views (\<open>app/views/main.py\<close>)\<close>

text \<open>
  A submitted form: a field is absent or carries its text. The department field
  carries the identifier its text denotes (the column is an integer), \<open>None\<close> standing
  for an absent or empty field, which \<open>request.form.get('department_id') or None\<close>
  both turn into \<open>None\<close>. \<open>request.form['name']\<close> answers 400 when the field is absent.
\<close>

record form =
  form_name :: "string option"
  form_department_id :: "int option"
  form_salary :: "string option"
  form_hire_date :: "string option"

datatype request = GET | POST form

text \<open>
  A flashed message with its category; \<open>Flash_exception prefix e category\<close> is the
  message \<open>f'{prefix}{str(e)}'\<close>, whose text the exception decides. And what a view
  answers; an exception that the view does not catch is answered with 500.
\<close>

datatype flash = Flash string string | Flash_exception string exception string

datatype response =
    Redirect_list_employees "flash list"
  | Render_create "department list" "flash list"
  | Render_edit employee "department list" "flash list"
  | Not_found_404
  | Bad_request_400
  | Internal_server_error_500

text \<open>\<open>request.form.get(field) or None\<close> on a text field: empty text is \<open>None\<close>.\<close>

definition or_None :: "string option \<Rightarrow> string option" where
  "or_None v = (case v of None \<Rightarrow> None | Some s \<Rightarrow> if s = [] then None else Some s)"

text \<open>
  \<open>if salary: try: float(salary) except ValueError: ...\<close>. Python's \<open>float\<close> on text
  is a parameter of the model: \<open>None\<close> when it raises \<open>ValueError\<close>. The result is
  \<open>Inl ()\<close> on that error, and otherwise the salary to store.
\<close>

definition parse_salary :: "(string \<Rightarrow> real option) \<Rightarrow> string option \<Rightarrow> unit + real option" where
  "parse_salary float salary =
     (case salary of
        None \<Rightarrow> Inr None
      | Some s \<Rightarrow> (case float s of None \<Rightarrow> Inl () | Some x \<Rightarrow> Inr (Some x)))"

definition get_departments :: "database \<Rightarrow> department list" where
  "get_departments db = departments db"

text \<open>
  \<open>Employee.query.get_or_404(employee_id)\<close>: the row with that id, if any; the lookup
  binds the id and raises \<open>OverflowError\<close> when it is no SQLite integer.
\<close>

definition get_or_404 :: "database \<Rightarrow> int \<Rightarrow> exception + employee option" where
  "get_or_404 db employee_id =
     (if \<not> sqlite_integer employee_id then Inl OverflowError
      else Inr (find (\<lambda>e. emp_id e = employee_id) (employees db)))"

text \<open>
  Writing a row fails with \<open>IntegrityError\<close> when foreign keys are enforced and the
  row references a department that does not exist. \<open>db.session.commit()\<close> writes and
  makes the change persistent; the views catch its failure and roll back. A new row
  gets the next row id: 1 in an empty table, else one more than the largest id.
\<close>

definition fk_violation :: "database \<Rightarrow> int option \<Rightarrow> bool" where
  "fk_violation db ref =
     (foreign_keys db \<and>
      (case ref of None \<Rightarrow> False | Some d \<Rightarrow> d \<notin> set (map dept_id (departments db))))"

definition next_rowid :: "employee list \<Rightarrow> int" where
  "next_rowid es = (if es = [] then 1 else Max (set (map emp_id es)) + 1)"

definition commit_insert ::
  "database \<Rightarrow> string \<Rightarrow> int option \<Rightarrow> real option \<Rightarrow> string option \<Rightarrow> exception + database" where
  "commit_insert db name department_id salary hire_date =
     (if fk_violation db department_id then Inl IntegrityError
      else Inr (db\<lparr>employees := employees db @
                  [\<lparr>emp_id = next_rowid (employees db), emp_name = name,
                    emp_department_id = department_id, emp_salary = salary,
                    emp_hire_date = hire_date\<rparr>]\<rparr>))"

definition commit_update :: "database \<Rightarrow> employee \<Rightarrow> exception + database" where
  "commit_update db employee =
     (if fk_violation db (emp_department_id employee) then Inl IntegrityError
      else Inr (db\<lparr>employees :=
                  map (\<lambda>e. if emp_id e = emp_id employee then employee else e)
                    (employees db)\<rparr>))"

definition commit_delete :: "database \<Rightarrow> employee \<Rightarrow> exception + database" where
  "commit_delete db employee =
     Inr (db\<lparr>employees := filter (\<lambda>e. emp_id e \<noteq> emp_id employee) (employees db)\<rparr>)"

text \<open>
  A query in a session with a changed object first writes the change (autoflush),
  inside the open transaction; the write can fail as at \<open>commit\<close>, and nothing catches
  that.
\<close>

definition autoflush :: "database \<Rightarrow> employee \<Rightarrow> exception + unit" where
  "autoflush db employee =
     (if fk_violation db (emp_department_id employee) then Inl IntegrityError else Inr ())"

text \<open>
  Each view takes the persisted database and the request, and returns the database
  as persisted after the request together with the response. Attribute assignments to
  the loaded \<open>employee\<close> object change the object only; they become persistent at
  \<open>commit\<close>, and a request that ends without it leaves the database as it was
  (the session is discarded with the request). After \<open>rollback\<close> the object is
  loaded again from the database, so the page rendered then shows the stored row.
\<close>

definition create_employee ::
  "(string \<Rightarrow> real option) \<Rightarrow> database \<Rightarrow> request \<Rightarrow> database \<times> response" where
  "create_employee float db request =
     (case request of
        GET \<Rightarrow> (db, Render_create (get_departments db) [])
      | POST form \<Rightarrow>
          (case form_name form of
             None \<Rightarrow> (db, Bad_request_400)
           | Some name \<Rightarrow>
               (let department_id = form_department_id form;
                    salary = or_None (form_salary form);
                    hire_date = or_None (form_hire_date form)
                in case parse_salary float salary of
                     Inl u \<Rightarrow>
                       (db, Render_create (get_departments db)
                              [Flash ''Invalid salary format'' ''error''])
                   | Inr salary \<Rightarrow>
                       (case commit_insert db name department_id salary hire_date of
                          Inr db' \<Rightarrow>
                            (db', Redirect_list_employees
                                    [Flash ''Employee created successfully!'' ''success''])
                        | Inl e \<Rightarrow>
                            (db, Render_create (get_departments db)
                                   [Flash_exception ''Error creating employee: '' e
                                      ''error''])))))"

definition edit_employee ::
  "(string \<Rightarrow> real option) \<Rightarrow> database \<Rightarrow> int \<Rightarrow> request \<Rightarrow> database \<times> response" where
  "edit_employee float db employee_id request =
     (case get_or_404 db employee_id of
        Inl e \<Rightarrow> (db, Internal_server_error_500)
      | Inr None \<Rightarrow> (db, Not_found_404)
      | Inr (Some employee) \<Rightarrow>
          (case request of
             GET \<Rightarrow> (db, Render_edit employee (get_departments db) [])
           | POST form \<Rightarrow>
               (case form_name form of
                  None \<Rightarrow> (db, Bad_request_400)
                | Some name \<Rightarrow>
                    (let employee1 = employee\<lparr>emp_name := name,
                                       emp_department_id := form_department_id form,
                                       emp_hire_date := or_None (form_hire_date form)\<rparr>;
                         salary = or_None (form_salary form)
                     in case parse_salary float salary of
                          Inl u \<Rightarrow>
                            (case autoflush db employee1 of
                               Inl e \<Rightarrow> (db, Internal_server_error_500)
                             | Inr f \<Rightarrow>
                                 (db, Render_edit employee1 (get_departments db)
                                        [Flash ''Invalid salary format'' ''error'']))
                        | Inr v \<Rightarrow>
                            (let employee2 = employee1\<lparr>emp_salary := v\<rparr>
                             in case commit_update db employee2 of
                                  Inr db' \<Rightarrow>
                                    (db', Redirect_list_employees
                                            [Flash ''Employee updated successfully!'' ''success''])
                                | Inl e \<Rightarrow>
                                    (db, Render_edit employee (get_departments db)
                                           [Flash_exception ''Error updating employee: '' e
                                              ''error'']))))))"

definition delete_employee :: "database \<Rightarrow> int \<Rightarrow> database \<times> response" where
  "delete_employee db employee_id =
     (case get_or_404 db employee_id of
        Inl e \<Rightarrow> (db, Internal_server_error_500)
      | Inr None \<Rightarrow> (db, Not_found_404)
      | Inr (Some employee) \<Rightarrow>
          (case commit_delete db employee of
             Inr db' \<Rightarrow>
               (db', Redirect_list_employees
                       [Flash ''Employee deleted successfully!'' ''success''])
           | Inl e \<Rightarrow>
               (db, Redirect_list_employees
                      [Flash_exception ''Error deleting employee: '' e ''error''])))"

section \<open>Reference definitions\<close>

text \<open>
  The statistics computed independently of the engine's accumulators, following the
  words of the specification: the employees whose department reference equals the
  filter, their count, and the average, least and greatest of their salaries that
  are not NULL (NULL when there is none). The average of one salary is that salary;
  the average of more is the one given as argument, applied to exactly these
  salaries.
\<close>

definition department_members :: "database \<Rightarrow> int \<Rightarrow> employee list" where
  "department_members db d = filter (\<lambda>e. emp_department_id e = Some d) (employees db)"

definition known_salaries :: "employee list \<Rightarrow> real list" where
  "known_salaries es = map the (filter (\<lambda>v. v \<noteq> None) (map emp_salary es))"

definition independent_stats :: "(real list \<Rightarrow> real) \<Rightarrow> employee list \<Rightarrow> stats" where
  "independent_stats average es =
     (let sals = known_salaries es
      in \<lparr>total_employees = int (length es),
          avg_salary = (if sals = [] then None
                        else if length sals = 1 then Some (hd sals)
                        else Some (average sals)),
          min_salary = (if sals = [] then None else Some (Min (set sals))),
          max_salary = (if sals = [] then None else Some (Max (set sals)))\<rparr>)"

text \<open>The average without rounding: the sum divided by the number of values.\<close>

definition exact_average :: "real list \<Rightarrow> real" where
  "exact_average xs = sum_list xs / real (length xs)"

text \<open>
  A filter text that \<open>LIKE\<close> takes literally: without the wildcard characters and
  without NUL.
\<close>

definition literal_filter :: "string \<Rightarrow> bool" where
  "literal_filter p =
     (\<forall>c\<in>set p. c \<noteq> CHR ''%'' \<and> c \<noteq> CHR ''_'' \<and> c \<noteq> CHR 0x00)"

text \<open>
  The result rows inside the answer of the protocol server: the value handed to
  \<open>json.dumps\<close>, and nothing when the answer is a plain message or the call raised.
\<close>

definition tool_rows :: "exception + text_content list \<Rightarrow> json option" where
  "tool_rows answer = (case answer of Inr [Json_dumps j] \<Rightarrow> Some j | _ \<Rightarrow> None)"

section \<open>Example databases and inputs\<close>

text \<open>
  The scenario of the specification: department 1, Engineering, and the employee Ada
  in it with salary 120000.0 and hire date 2023-01-15.
\<close>

definition scenario_db :: database where
  "scenario_db =
     \<lparr>employees = [\<lparr>emp_id = 1, emp_name = ''Ada'', emp_department_id = Some 1,
                     emp_salary = Some 120000, emp_hire_date = Some ''2023-01-15''\<rparr>],
      departments = [\<lparr>dept_id = 1, dept_name = ''Engineering''\<rparr>],
      foreign_keys = False\<rparr>"

text \<open>The row of Ada in the scenario database, joined with her department.\<close>

definition ada_row :: emp_row where
  "ada_row =
     \<lparr>row_id = 1, row_name = ''Ada'', row_department_id = Some 1,
      row_department_name = Some ''Engineering'', row_salary = Some 120000,
      row_hire_date = Some ''2023-01-15''\<rparr>"

text \<open>A database where one employee references department 0.\<close>

definition zero_reference_db :: database where
  "zero_reference_db =
     \<lparr>employees = [\<lparr>emp_id = 1, emp_name = ''Ada'', emp_department_id = Some 0,
                     emp_salary = Some 50000, emp_hire_date = None\<rparr>,
                   \<lparr>emp_id = 2, emp_name = ''Bob'', emp_department_id = Some 1,
                     emp_salary = Some 70000, emp_hire_date = None\<rparr>],
      departments = [\<lparr>dept_id = 1, dept_name = ''Engineering''\<rparr>],
      foreign_keys = False\<rparr>"

text \<open>
  The scenario with foreign keys enforced.
\<close>

definition enforcing_db :: database where
  "enforcing_db = scenario_db\<lparr>foreign_keys := True\<rparr>"

text \<open>A database of \<open>n\<close> employees, numbered from 1, and no department.\<close>

definition crowd :: "int \<Rightarrow> database" where
  "crowd n =
     \<lparr>employees = map (\<lambda>i. \<lparr>emp_id = i, emp_name = ''Employee'', emp_department_id = None,
                              emp_salary = None, emp_hire_date = None\<rparr>) [1..n],
      departments = [],
      foreign_keys = False\<rparr>"

text \<open>The empty \<open>arguments\<close> dictionary.\<close>

definition no_arguments :: arguments where
  "no_arguments =
     \<lparr>arg_limit = None, arg_employee_id = None, arg_name = None, arg_department = None,
      arg_department_id = None, arg_query = None\<rparr>"

text \<open>A reading of \<open>float\<close> that parses two salary texts and raises on any other.\<close>

definition scenario_float :: "string \<Rightarrow> real option" where
  "scenario_float s =
     (if s = ''120000.0'' then Some 120000 else if s = ''50000'' then Some 50000 else None)"

text \<open>
  An engine whose averages are exact, which evaluates \<open>LIKE\<close> whenever there is a row
  to join, and which answers the statement \<open>select zeroblob(1) as b\<close> with its one
  row, a BLOB of one zero byte, and any other statement with one row of one integer.
\<close>

definition example_engine :: engine where
  "example_engine =
     \<lparr>engine_execute =
        (\<lambda>db q. if q = ''select zeroblob(1) as b'' then Inr [[(''b'', Sql_blob [CHR 0x00])]]
                 else Inr [[(''1'', Sql_integer 1)]]),
      engine_average = exact_average,
      engine_reaches = (\<lambda>db conds limit. employees db \<noteq> [])\<rparr>"

section \<open>The validator against its description\<close>

lemma py_startswith_prefix: "py_startswith s p = prefix p s"
  by (induction s p rule: py_startswith.induct) auto

lemma py_in_sublist: "py_in k s = sublist k s"
  by (induction s) (auto simp: py_startswith_prefix sublist_Cons_right)

lemma keyword_loop_iff: "keyword_loop ks s = (\<forall>k\<in>set ks. \<not> sublist k s)"
  by (induction ks) (auto simp: py_in_sublist)

lemma sublist_lstrip:
  assumes "sublist k s" "k \<noteq> []" "\<not> py_isspace (hd k)"
  shows "sublist k (py_lstrip s)"
proof -
  from assms obtain ps ss where s: "s = ps @ k @ ss" by (auto simp: sublist_def)
  obtain a k' where k: "k = a # k'" using assms(2) by (cases k) auto
  show ?thesis
  proof (cases "\<forall>x\<in>set ps. py_isspace x")
    case True
    then have "dropWhile py_isspace (ps @ k @ ss) = k @ ss"
      using assms(3) k by (simp add: dropWhile_append)
    then show ?thesis by (simp add: py_lstrip_def s)
  next
    case False
    then have "dropWhile py_isspace (ps @ k @ ss) = dropWhile py_isspace ps @ k @ ss"
      by (auto simp: dropWhile_append1)
    then show ?thesis by (simp add: py_lstrip_def s)
  qed
qed

lemma sublist_rstrip:
  assumes "sublist k s" "k \<noteq> []" "\<not> py_isspace (last k)"
  shows "sublist k (py_rstrip s)"
proof -
  from assms(1) have *: "sublist (rev k) (rev s)" by simp
  have "sublist (rev k) (py_lstrip (rev s))"
    by (rule sublist_lstrip[OF *]) (use assms in \<open>simp_all add: hd_rev\<close>)
  then have "sublist (rev (rev k)) (rev (py_lstrip (rev s)))"
    by (simp only: sublist_rev)
  then show ?thesis by (simp add: py_rstrip_def py_lstrip_def)
qed

lemma sublist_strip:
  assumes "sublist k s" "k \<noteq> []" "\<not> py_isspace (hd k)" "\<not> py_isspace (last k)"
  shows "sublist k (py_strip s)"
  unfolding py_strip_def using assms by (intro sublist_rstrip sublist_lstrip)

lemma dangerous_keywords_shape:
  "\<forall>k\<in>set dangerous_keywords.
     k \<noteq> [] \<and> \<not> py_isspace (hd k) \<and> \<not> py_isspace (last k) \<and> py_lower k = k"
  by code_simp

lemma dangerous_in_lowered:
  assumes "k \<in> set dangerous_keywords" "sublist k (py_lower sql)"
  shows "sublist k (py_strip (py_lower sql))"
  using assms dangerous_keywords_shape by (intro sublist_strip) auto

lemma dangerous_in_raw:
  assumes "k \<in> set dangerous_keywords" "sublist k sql"
  shows "sublist k (py_lower sql)"
proof -
  have "sublist (py_lower k) (py_lower sql)"
    unfolding py_lower_def using assms(2) by (rule map_mono_sublist)
  then show ?thesis using assms(1) dangerous_keywords_shape by auto
qed

lemma validate_server_iff:
  "validate_sql_safety sql \<longleftrightarrow>
     prefix ''select'' (py_strip (py_lower sql)) \<and>
     (\<forall>k\<in>set dangerous_keywords. \<not> sublist k (py_strip (py_lower sql)))"
  by (auto simp: validate_sql_safety_def Let_def keyword_loop_iff py_startswith_prefix)

lemma validate_iface_iff:
  "EmployeeDBInterface_validate_sql_safety sql \<longleftrightarrow>
     prefix ''select'' (py_strip (py_lower sql)) \<and>
     (\<forall>k\<in>set dangerous_keywords. \<not> sublist k (py_strip (py_lower sql)))"
  by (auto simp: EmployeeDBInterface_validate_sql_safety_def Let_def keyword_loop_iff
      py_startswith_prefix)

lemma dangerous_keywords_literal:
  "dangerous_keywords =
     [''drop'', ''delete'', ''truncate'', ''alter'', ''create'', ''insert'', ''update'',
      ''grant'', ''revoke'', ''exec'', ''execute'', ''sp_'', ''xp_'', ''--'', ''/*'', ''*/'']"
  by (simp add: dangerous_keywords_def)

text \<open>
  C1: each copy of the validator accepts a query exactly when the lowercased, stripped
  text starts with \<open>select\<close> and contains none of the sixteen literals \<open>drop\<close>,
  \<open>delete\<close>, \<open>truncate\<close>, \<open>alter\<close>, \<open>create\<close>, \<open>insert\<close>, \<open>update\<close>, \<open>grant\<close>,
  \<open>revoke\<close>, \<open>exec\<close>, \<open>execute\<close>, \<open>sp_\<close>, \<open>xp_\<close>, \<open>--\<close>, \<open>/*\<close>, \<open>*/\<close> as a
  substring; so a text that does not start with \<open>select\<close> is rejected, and so is a
  text that contains one of the literals, as written or after lowercasing.
\<close>

theorem validate_sql_safety_accepts_iff:
  "(validate_sql_safety sql \<longleftrightarrow>
      prefix ''select'' (py_strip (py_lower sql)) \<and>
      (\<forall>k\<in>set [''drop'', ''delete'', ''truncate'', ''alter'', ''create'', ''insert'',
                 ''update'', ''grant'', ''revoke'', ''exec'', ''execute'', ''sp_'', ''xp_'',
                 ''--'', ''/*'', ''*/''].
         \<not> sublist k (py_strip (py_lower sql)))) \<and>
   (EmployeeDBInterface_validate_sql_safety sql \<longleftrightarrow>
      prefix ''select'' (py_strip (py_lower sql)) \<and>
      (\<forall>k\<in>set [''drop'', ''delete'', ''truncate'', ''alter'', ''create'', ''insert'',
                 ''update'', ''grant'', ''revoke'', ''exec'', ''execute'', ''sp_'', ''xp_'',
                 ''--'', ''/*'', ''*/''].
         \<not> sublist k (py_strip (py_lower sql)))) \<and>
   (\<not> prefix ''select'' (py_strip (py_lower sql)) \<longrightarrow>
      \<not> validate_sql_safety sql \<and> \<not> EmployeeDBInterface_validate_sql_safety sql) \<and>
   (\<forall>k\<in>set [''drop'', ''delete'', ''truncate'', ''alter'', ''create'', ''insert'',
              ''update'', ''grant'', ''revoke'', ''exec'', ''execute'', ''sp_'', ''xp_'',
              ''--'', ''/*'', ''*/''].
      sublist k sql \<or> sublist k (py_lower sql) \<longrightarrow>
        \<not> validate_sql_safety sql \<and> \<not> EmployeeDBInterface_validate_sql_safety sql)"
proof -
  have "(validate_sql_safety sql \<longleftrightarrow>
      prefix ''select'' (py_strip (py_lower sql)) \<and>
      (\<forall>k\<in>set dangerous_keywords. \<not> sublist k (py_strip (py_lower sql)))) \<and>
   (EmployeeDBInterface_validate_sql_safety sql \<longleftrightarrow>
      prefix ''select'' (py_strip (py_lower sql)) \<and>
      (\<forall>k\<in>set dangerous_keywords. \<not> sublist k (py_strip (py_lower sql)))) \<and>
   (\<not> prefix ''select'' (py_strip (py_lower sql)) \<longrightarrow>
      \<not> validate_sql_safety sql \<and> \<not> EmployeeDBInterface_validate_sql_safety sql) \<and>
   (\<forall>k\<in>set dangerous_keywords. sublist k sql \<or> sublist k (py_lower sql) \<longrightarrow>
      \<not> validate_sql_safety sql \<and> \<not> EmployeeDBInterface_validate_sql_safety sql)"
  proof (intro conjI)
    show "\<forall>k\<in>set dangerous_keywords. sublist k sql \<or> sublist k (py_lower sql) \<longrightarrow>
        \<not> validate_sql_safety sql \<and> \<not> EmployeeDBInterface_validate_sql_safety sql"
      using dangerous_in_raw dangerous_in_lowered
      unfolding validate_server_iff validate_iface_iff by blast
  qed (simp_all add: validate_server_iff validate_iface_iff)
  then show ?thesis unfolding dangerous_keywords_literal .
qed

text \<open>
  The theorem at six queries: one accepted; one that does not start with \<open>select\<close>;
  and four that contain \<open>--\<close>, \<open>drop\<close>, \<open>update\<close> and, in another letter case,
  \<open>create\<close>.
\<close>

theorem validate_sql_safety_accepts_iff_witness:
  "validate_sql_safety ''  SELECT name FROM employees '' \<and>
   EmployeeDBInterface_validate_sql_safety ''  SELECT name FROM employees '' \<and>
   \<not> prefix ''select'' (py_strip (py_lower ''show tables'')) \<and>
   \<not> validate_sql_safety ''show tables'' \<and>
   \<not> EmployeeDBInterface_validate_sql_safety ''show tables'' \<and>
   sublist ''--'' ''select * from employees; --'' \<and>
   \<not> validate_sql_safety ''select * from employees; --'' \<and>
   \<not> EmployeeDBInterface_validate_sql_safety ''select * from employees; --'' \<and>
   sublist ''drop'' ''select 1; drop table employees'' \<and>
   \<not> validate_sql_safety ''select 1; drop table employees'' \<and>
   \<not> EmployeeDBInterface_validate_sql_safety ''select 1; drop table employees'' \<and>
   sublist ''update'' ''select updated_at from employees'' \<and>
   \<not> validate_sql_safety ''select updated_at from employees'' \<and>
   sublist ''create'' (py_lower ''SELECT Created_At FROM employees'') \<and>
   \<not> validate_sql_safety ''SELECT Created_At FROM employees''"
proof -
  let ?ks = "[''drop'', ''delete'', ''truncate'', ''alter'', ''create'', ''insert'',
              ''update'', ''grant'', ''revoke'', ''exec'', ''execute'', ''sp_'', ''xp_'',
              ''--'', ''/*'', ''*/'']"
  have a: "prefix ''select'' (py_strip (py_lower ''  SELECT name FROM employees ''))"
    by code_simp
  have b: "\<forall>k\<in>set ?ks. \<not> sublist k (py_strip (py_lower ''  SELECT name FROM employees ''))"
    by code_simp
  have c: "\<not> prefix ''select'' (py_strip (py_lower ''show tables''))"
    by code_simp
  have d: "''--'' \<in> set ?ks" "''drop'' \<in> set ?ks" "''update'' \<in> set ?ks"
    "''create'' \<in> set ?ks"
    by simp_all
  have e: "sublist ''--'' ''select * from employees; --''" by code_simp
  have f: "sublist ''drop'' ''select 1; drop table employees''" by code_simp
  have g: "sublist ''update'' ''select updated_at from employees''" by code_simp
  have h: "sublist ''create'' (py_lower ''SELECT Created_At FROM employees'')" by code_simp
  note T = validate_sql_safety_accepts_iff
  note reject = T [THEN conjunct2, THEN conjunct2, THEN conjunct2, THEN bspec, THEN mp]
  have 1: "validate_sql_safety ''  SELECT name FROM employees ''"
    by (rule T [THEN conjunct1, THEN iffD2, OF conjI [OF a b]])
  have 2: "EmployeeDBInterface_validate_sql_safety ''  SELECT name FROM employees ''"
    by (rule T [THEN conjunct2, THEN conjunct1, THEN iffD2, OF conjI [OF a b]])
  have 3: "\<not> validate_sql_safety ''show tables'' \<and>
           \<not> EmployeeDBInterface_validate_sql_safety ''show tables''"
    by (rule T [THEN conjunct2, THEN conjunct2, THEN conjunct1, THEN mp, OF c])
  have 4: "\<not> validate_sql_safety ''select * from employees; --'' \<and>
           \<not> EmployeeDBInterface_validate_sql_safety ''select * from employees; --''"
    by (rule reject [OF d(1) disjI1 [OF e]])
  have 5: "\<not> validate_sql_safety ''select 1; drop table employees'' \<and>
           \<not> EmployeeDBInterface_validate_sql_safety ''select 1; drop table employees''"
    by (rule reject [OF d(2) disjI1 [OF f]])
  have 6: "\<not> validate_sql_safety ''select updated_at from employees'' \<and>
           \<not> EmployeeDBInterface_validate_sql_safety ''select updated_at from employees''"
    by (rule reject [OF d(3) disjI1 [OF g]])
  have 7: "\<not> validate_sql_safety ''SELECT Created_At FROM employees'' \<and>
           \<not> EmployeeDBInterface_validate_sql_safety ''SELECT Created_At FROM employees''"
    by (rule reject [OF d(4) disjI2 [OF h]])
  from 1 2 c 3 e 4 f 5 g 6 h 7 show ?thesis by (intro conjI) (erule conjunct1 conjunct2 | assumption)+
qed

section \<open>Statistics\<close>

lemma known_salaries_non_null: "known_salaries es = non_null (map emp_salary es)"
proof (induction es)
  case Nil
  then show ?case by (simp add: known_salaries_def)
next
  case (Cons e es)
  then show ?case by (cases "emp_salary e") (simp_all add: known_salaries_def)
qed

lemma foldl_count: "foldl (\<lambda>n r. n + 1) a rows = a + int (length rows)"
  by (induction rows arbitrary: a) auto

lemma count_star_length: "count_star rows = int (length rows)"
  by (simp add: count_star_def foldl_count)

lemma sql_avg_non_null:
  "sql_avg average vs =
     (if non_null vs = [] then None
      else if length (non_null vs) = 1 then Some (hd (non_null vs))
      else Some (average (non_null vs)))"
  by (simp add: sql_avg_def split: list.splits)

lemma foldl_min_step:
  "foldl min_step acc vs =
     (if non_null vs = [] then acc
      else Some (case acc of None \<Rightarrow> Min (set (non_null vs))
                           | Some m \<Rightarrow> min m (Min (set (non_null vs)))))"
proof (induction vs arbitrary: acc)
  case Nil
  then show ?case by simp
next
  case (Cons v vs)
  show ?case
  proof (cases v)
    case None
    then show ?thesis using Cons by (cases acc) simp_all
  next
    case (Some x)
    show ?thesis
    proof (cases "non_null vs = []")
      case True
      then show ?thesis using Some Cons by (cases acc) (auto simp: min_def)
    next
      case False
      then show ?thesis using Some Cons
        by (cases acc) (auto simp: min_def split: if_splits)
    qed
  qed
qed

lemma foldl_max_step:
  "foldl max_step acc vs =
     (if non_null vs = [] then acc
      else Some (case acc of None \<Rightarrow> Max (set (non_null vs))
                           | Some m \<Rightarrow> max m (Max (set (non_null vs)))))"
proof (induction vs arbitrary: acc)
  case Nil
  then show ?case by simp
next
  case (Cons v vs)
  show ?case
  proof (cases v)
    case None
    then show ?thesis using Cons by (cases acc) simp_all
  next
    case (Some x)
    show ?thesis
    proof (cases "non_null vs = []")
      case True
      then show ?thesis using Some Cons by (cases acc) (auto simp: max_def)
    next
      case False
      then show ?thesis using Some Cons
        by (cases acc) (auto simp: max_def split: if_splits)
    qed
  qed
qed

lemma select_stats_independent:
  "select_stats eng es = independent_stats (engine_average eng) es"
  by (simp add: select_stats_def independent_stats_def Let_def known_salaries_non_null
      count_star_length sql_avg_non_null sql_min_def sql_max_def foldl_min_step foldl_max_step)

lemma stats_tool_eq:
  "handle_call_tool eng db ''get_employee_stats'' a =
     (case EmployeeDBInterface_get_employee_stats eng db (arg_department_id a) of
        Inl e \<Rightarrow> Inl e
      | Inr s \<Rightarrow> Inr [Json_dumps (Json_stats s)])"
  by (simp add: handle_call_tool_def EmployeeDBInterface_get_employee_stats_def Let_def
      dumps_content_def)

lemma iface_stats_nonzero:
  "d \<noteq> 0 \<Longrightarrow> sqlite_integer d \<Longrightarrow>
   EmployeeDBInterface_get_employee_stats eng db (Some d) =
     Inr (independent_stats (engine_average eng) (department_members db d))"
  by (simp add: EmployeeDBInterface_get_employee_stats_def select_stats_independent
      department_members_def)

lemma iface_stats_falsy:
  "\<not> truthy d \<Longrightarrow>
   EmployeeDBInterface_get_employee_stats eng db d =
     Inr (independent_stats (engine_average eng) (employees db))"
  by (simp add: EmployeeDBInterface_get_employee_stats_def select_stats_independent)

lemma independent_stats_single:
  "emp_salary e = Some x \<Longrightarrow>
   independent_stats average [e] =
     \<lparr>total_employees = 1, avg_salary = Some x, min_salary = Some x, max_salary = Some x\<rparr>"
  by (simp add: independent_stats_def known_salaries_def)

lemma example_engine_average [simp]: "engine_average example_engine = exact_average"
  by (simp add: example_engine_def)

text \<open>
  C3, as stated, fails when the filter is 0: on the scenario database the call with
  \<open>department_id = 0\<close> counts one employee, while no employee references department 0.
\<close>

theorem get_employee_stats_filtered_counterexample:
  "EmployeeDBInterface_get_employee_stats example_engine scenario_db (Some 0) =
     Inr \<lparr>total_employees = 1, avg_salary = Some 120000, min_salary = Some 120000,
          max_salary = Some 120000\<rparr> \<and>
   department_members scenario_db 0 = [] \<and>
   total_employees (independent_stats exact_average (department_members scenario_db 0)) = 0"
  by (simp add: iface_stats_falsy scenario_db_def independent_stats_def department_members_def
      known_salaries_def exact_average_def)

text \<open>
  C3, amended: for every call of \<open>get_employee_stats\<close> whose department filter is
  a SQLite integer other than 0, in either adapter, the returned count, minimum and
  maximum are those computed independently over exactly the employees whose
  department reference equals the filter, and the returned average is the engine's
  average of the salaries of exactly those employees (of one salary, that salary);
  and on a database whose only employee references department 1 and earns 120000.0
  the call with filter 1 returns 1, 120000.0, 120000.0, 120000.0.
\<close>

theorem get_employee_stats_filtered:
  "(d \<noteq> 0 \<and> sqlite_integer d \<longrightarrow>
      EmployeeDBInterface_get_employee_stats eng db (Some d) =
        Inr (independent_stats (engine_average eng) (department_members db d)) \<and>
      handle_call_tool eng db ''get_employee_stats'' (a\<lparr>arg_department_id := Some d\<rparr>) =
        Inr [Json_dumps (Json_stats
          (independent_stats (engine_average eng) (department_members db d)))]) \<and>
   (employees db = [e] \<and> emp_department_id e = Some 1 \<and> emp_salary e = Some 120000 \<longrightarrow>
      EmployeeDBInterface_get_employee_stats eng db (Some 1) =
        Inr \<lparr>total_employees = 1, avg_salary = Some 120000, min_salary = Some 120000,
             max_salary = Some 120000\<rparr> \<and>
      handle_call_tool eng db ''get_employee_stats'' (a\<lparr>arg_department_id := Some 1\<rparr>) =
        Inr [Json_dumps (Json_stats
          \<lparr>total_employees = 1, avg_salary = Some 120000, min_salary = Some 120000,
           max_salary = Some 120000\<rparr>)])"
proof (intro conjI impI)
  assume d: "d \<noteq> 0 \<and> sqlite_integer d"
  then show "EmployeeDBInterface_get_employee_stats eng db (Some d) =
        Inr (independent_stats (engine_average eng) (department_members db d))"
    by (simp add: iface_stats_nonzero)
  from d show "handle_call_tool eng db ''get_employee_stats'' (a\<lparr>arg_department_id := Some d\<rparr>) =
        Inr [Json_dumps (Json_stats
          (independent_stats (engine_average eng) (department_members db d)))]"
    by (simp add: stats_tool_eq iface_stats_nonzero)
next
  assume e: "employees db = [e] \<and> emp_department_id e = Some 1 \<and>
    emp_salary e = Some 120000"
  then have m: "department_members db 1 = [e]" by (simp add: department_members_def)
  have i: "sqlite_integer 1" by (simp add: sqlite_integer_def)
  show 1: "EmployeeDBInterface_get_employee_stats eng db (Some 1) =
        Inr \<lparr>total_employees = 1, avg_salary = Some 120000, min_salary = Some 120000,
             max_salary = Some 120000\<rparr>"
    using e i by (simp add: iface_stats_nonzero m independent_stats_single)
  show "handle_call_tool eng db ''get_employee_stats'' (a\<lparr>arg_department_id := Some 1\<rparr>) =
        Inr [Json_dumps (Json_stats
          \<lparr>total_employees = 1, avg_salary = Some 120000, min_salary = Some 120000,
           max_salary = Some 120000\<rparr>)]"
    by (simp add: stats_tool_eq 1)
qed

text \<open>
  The theorem on the database with two employees, for filter 1, and on the scenario
  database.
\<close>

theorem get_employee_stats_filtered_witness:
  "(1::int) \<noteq> 0 \<and> sqlite_integer 1 \<and>
   EmployeeDBInterface_get_employee_stats example_engine zero_reference_db (Some 1) =
     Inr \<lparr>total_employees = 1, avg_salary = Some 70000, min_salary = Some 70000,
          max_salary = Some 70000\<rparr> \<and>
   employees scenario_db = [hd (employees scenario_db)] \<and>
   emp_department_id (hd (employees scenario_db)) = Some 1 \<and>
   emp_salary (hd (employees scenario_db)) = Some 120000 \<and>
   EmployeeDBInterface_get_employee_stats example_engine scenario_db (Some 1) =
     Inr \<lparr>total_employees = 1, avg_salary = Some 120000, min_salary = Some 120000,
          max_salary = Some 120000\<rparr> \<and>
   handle_call_tool example_engine scenario_db ''get_employee_stats''
       (no_arguments\<lparr>arg_department_id := Some 1\<rparr>) =
     Inr [Json_dumps (Json_stats
       \<lparr>total_employees = 1, avg_salary = Some 120000, min_salary = Some 120000,
        max_salary = Some 120000\<rparr>)]"
proof -
  have h0: "(1::int) \<noteq> 0 \<and> sqlite_integer 1" by (simp add: sqlite_integer_def)
  have h: "employees scenario_db = [hd (employees scenario_db)] \<and>
        emp_department_id (hd (employees scenario_db)) = Some 1 \<and>
        emp_salary (hd (employees scenario_db)) = Some 120000"
    by (simp add: scenario_db_def)
  have r: "independent_stats (engine_average example_engine)
             (department_members zero_reference_db 1) =
           \<lparr>total_employees = 1, avg_salary = Some 70000, min_salary = Some 70000,
            max_salary = Some 70000\<rparr>"
    by (simp add: zero_reference_db_def independent_stats_def department_members_def
        known_salaries_def exact_average_def)
  from h0 get_employee_stats_filtered
      [where d = 1 and eng = example_engine and db = zero_reference_db and a = no_arguments]
  have "EmployeeDBInterface_get_employee_stats example_engine zero_reference_db (Some 1) =
        Inr (independent_stats (engine_average example_engine)
               (department_members zero_reference_db 1))"
    by blast
  then have z: "EmployeeDBInterface_get_employee_stats example_engine zero_reference_db
      (Some 1) =
     Inr \<lparr>total_employees = 1, avg_salary = Some 70000, min_salary = Some 70000,
          max_salary = Some 70000\<rparr>"
    by (simp only: r)
  show ?thesis
    using h0 h z get_employee_stats_filtered
      [where d = 1 and eng = example_engine and db = scenario_db and a = no_arguments
        and e = "hd (employees scenario_db)"]
    by blast
qed

text \<open>
  C10: \<open>get_employee_stats\<close> with \<open>department_id = 0\<close> returns, in either adapter, what
  it returns without filter: the aggregates over all employees. These are not the
  aggregates over the employees that reference department 0, as the database with
  one such employee among two shows.
\<close>

theorem get_employee_stats_zero_is_unfiltered:
  "EmployeeDBInterface_get_employee_stats eng db (Some 0) =
     EmployeeDBInterface_get_employee_stats eng db None \<and>
   EmployeeDBInterface_get_employee_stats eng db (Some 0) =
     Inr (independent_stats (engine_average eng) (employees db)) \<and>
   handle_call_tool eng db ''get_employee_stats'' (a\<lparr>arg_department_id := Some 0\<rparr>) =
     handle_call_tool eng db ''get_employee_stats'' (a\<lparr>arg_department_id := None\<rparr>) \<and>
   handle_call_tool eng db ''get_employee_stats'' (a\<lparr>arg_department_id := Some 0\<rparr>) =
     Inr [Json_dumps (Json_stats (independent_stats (engine_average eng) (employees db)))] \<and>
   EmployeeDBInterface_get_employee_stats example_engine zero_reference_db (Some 0) =
     Inr \<lparr>total_employees = 2, avg_salary = Some 60000, min_salary = Some 50000,
          max_salary = Some 70000\<rparr> \<and>
   independent_stats exact_average (department_members zero_reference_db 0) =
     \<lparr>total_employees = 1, avg_salary = Some 50000, min_salary = Some 50000,
      max_salary = Some 50000\<rparr>"
proof (intro conjI)
  show "EmployeeDBInterface_get_employee_stats example_engine zero_reference_db (Some 0) =
     Inr \<lparr>total_employees = 2, avg_salary = Some 60000, min_salary = Some 50000,
          max_salary = Some 70000\<rparr>"
    by (simp add: iface_stats_falsy zero_reference_db_def independent_stats_def
        known_salaries_def exact_average_def)
  show "independent_stats exact_average (department_members zero_reference_db 0) =
     \<lparr>total_employees = 1, avg_salary = Some 50000, min_salary = Some 50000,
      max_salary = Some 50000\<rparr>"
    by (simp add: zero_reference_db_def independent_stats_def department_members_def
        known_salaries_def exact_average_def)
qed (simp_all add: stats_tool_eq iface_stats_falsy)

text \<open>The theorem on the scenario database.\<close>

theorem get_employee_stats_zero_is_unfiltered_witness:
  "EmployeeDBInterface_get_employee_stats example_engine scenario_db (Some 0) =
     Inr \<lparr>total_employees = 1, avg_salary = Some 120000, min_salary = Some 120000,
          max_salary = Some 120000\<rparr>"
proof -
  have r: "independent_stats (engine_average example_engine) (employees scenario_db) =
     \<lparr>total_employees = 1, avg_salary = Some 120000, min_salary = Some 120000,
      max_salary = Some 120000\<rparr>"
    by (simp add: scenario_db_def independent_stats_def known_salaries_def exact_average_def)
  from get_employee_stats_zero_is_unfiltered [of example_engine scenario_db no_arguments]
  have "EmployeeDBInterface_get_employee_stats example_engine scenario_db (Some 0) =
          Inr (independent_stats (engine_average example_engine) (employees scenario_db))"
    by blast
  then show ?thesis by (simp only: r)
qed

section \<open>The join\<close>

lemma left_join_row_ids: "r \<in> set (left_join_row ds e) \<Longrightarrow> row_id r = emp_id e"
  by (auto simp: left_join_row_def select_columns_def split: list.splits)

lemma left_join_ids: "r \<in> set (left_join db) \<Longrightarrow> row_id r \<in> emp_id ` set (employees db)"
  by (auto simp: left_join_def dest: left_join_row_ids)

lemma no_row_of_unknown_id:
  assumes "employee_id \<notin> emp_id ` set (employees db)"
  shows "filter (\<lambda>r. row_id r = employee_id) (left_join db) = []"
  using assms left_join_ids by (fastforce simp: filter_empty_conv)

lemma find_unknown_id:
  "employee_id \<notin> emp_id ` set (employees db) \<Longrightarrow>
   find (\<lambda>e. emp_id e = employee_id) (employees db) = None"
  by (auto simp: find_None_iff)

section \<open>Unknown identifiers\<close>

text \<open>
  C5, as stated, fails for an identifier that is no SQLite integer: for the absent
  identifier \<open>2^63\<close> the lookup raises \<open>OverflowError\<close>, so \<open>delete_employee\<close> answers
  500 and \<open>get_employee\<close> raises in both adapters, instead of reporting not found.
\<close>

theorem unknown_employee_not_found_counterexample:
  "(9223372036854775808::int) \<notin> emp_id ` set (employees scenario_db) \<and>
   delete_employee scenario_db 9223372036854775808 =
     (scenario_db, Internal_server_error_500) \<and>
   EmployeeDBInterface_get_employee scenario_db 9223372036854775808 = Inl OverflowError \<and>
   handle_call_tool example_engine scenario_db ''get_employee''
       (no_arguments\<lparr>arg_employee_id := Some 9223372036854775808\<rparr>) = Inl OverflowError"
  by (simp add: scenario_db_def delete_employee_def get_or_404_def sqlite_integer_def
      EmployeeDBInterface_get_employee_def handle_call_tool_def no_arguments_def)

text \<open>
  C5, amended: for an identifier that no row of \<open>employees\<close> carries,
  \<open>delete_employee\<close> leaves the database as it is; and when the identifier is a
  SQLite integer (from \<open>-2^63\<close> to \<open>2^63 - 1\<close>) it answers 404, not a redirect with a
  success message, and \<open>get_employee\<close> returns \<open>None\<close> in the directly callable adapter
  and the text \<open>Employee not found\<close> in the protocol server.
\<close>

theorem unknown_employee_not_found:
  assumes "employee_id \<notin> emp_id ` set (employees db)"
  shows "fst (delete_employee db employee_id) = db \<and>
         (sqlite_integer employee_id \<longrightarrow>
            delete_employee db employee_id = (db, Not_found_404) \<and>
            EmployeeDBInterface_get_employee db employee_id = Inr None \<and>
            handle_call_tool eng db ''get_employee''
                (a\<lparr>arg_employee_id := Some employee_id\<rparr>) =
              Inr [Text ''Employee not found''])"
  using assms
  by (simp add: delete_employee_def get_or_404_def find_unknown_id
      EmployeeDBInterface_get_employee_def no_row_of_unknown_id handle_call_tool_def)

text \<open>The theorem on the scenario database, whose only employee has identifier 1.\<close>

theorem unknown_employee_not_found_witness:
  "(7::int) \<notin> emp_id ` set (employees scenario_db) \<and> sqlite_integer 7 \<and>
   delete_employee scenario_db 7 = (scenario_db, Not_found_404) \<and>
   EmployeeDBInterface_get_employee scenario_db 7 = Inr None \<and>
   handle_call_tool example_engine scenario_db ''get_employee''
       (no_arguments\<lparr>arg_employee_id := Some 7\<rparr>) =
     Inr [Text ''Employee not found'']"
proof -
  have h: "(7::int) \<notin> emp_id ` set (employees scenario_db)"
    by (simp add: scenario_db_def)
  have i: "sqlite_integer 7" by (simp add: sqlite_integer_def)
  show ?thesis
    using h i unknown_employee_not_found [OF h, of example_engine no_arguments]
    by blast
qed

section \<open>Editing with a malformed salary\<close>

text \<open>
  C9, as stated, fails: with the salary text \<open>lots\<close>, which does not parse, the view
  answers 404 when the employee does not exist, 400 when the form carries no name,
  and 500 when foreign keys are enforced and the form names a department that does
  not exist; none of these reports the invalid salary.
\<close>

theorem edit_employee_invalid_salary_counterexample:
  "scenario_float ''lots'' = None \<and>
   edit_employee scenario_float scenario_db 7
       (POST \<lparr>form_name = Some ''Ada L'', form_department_id = Some 1,
              form_salary = Some ''lots'', form_hire_date = None\<rparr>) =
     (scenario_db, Not_found_404) \<and>
   edit_employee scenario_float scenario_db 1
       (POST \<lparr>form_name = None, form_department_id = Some 1,
              form_salary = Some ''lots'', form_hire_date = None\<rparr>) =
     (scenario_db, Bad_request_400) \<and>
   edit_employee scenario_float enforcing_db 1
       (POST \<lparr>form_name = Some ''Ada L'', form_department_id = Some 9,
              form_salary = Some ''lots'', form_hire_date = None\<rparr>) =
     (enforcing_db, Internal_server_error_500)"
  by (simp add: scenario_float_def edit_employee_def get_or_404_def sqlite_integer_def
      scenario_db_def enforcing_db_def or_None_def parse_salary_def autoflush_def
      fk_violation_def)

text \<open>
  C9, amended: when the salary field of a submitted edit form is non-empty text on
  which \<open>float\<close> raises \<open>ValueError\<close>, \<open>edit_employee\<close> leaves the database exactly as
  it was; and when, moreover, the employee exists, the form carries a name, and the
  submitted department reference does not violate an enforced foreign key, it renders
  the edit form again with the message \<open>Invalid salary format\<close>.
\<close>

theorem edit_employee_invalid_salary:
  assumes "form_salary form = Some s" and "s \<noteq> []" and "float s = None"
  shows "fst (edit_employee float db employee_id (POST form)) = db \<and>
         get_or_404 (fst (edit_employee float db employee_id (POST form))) employee_id =
           get_or_404 db employee_id \<and>
         (get_or_404 db employee_id = Inr (Some employee) \<and> form_name form = Some name \<and>
          \<not> fk_violation db (form_department_id form) \<longrightarrow>
            snd (edit_employee float db employee_id (POST form)) =
              Render_edit
                (employee\<lparr>emp_name := name, emp_department_id := form_department_id form,
                           emp_hire_date := or_None (form_hire_date form)\<rparr>)
                (get_departments db) [Flash ''Invalid salary format'' ''error''])"
proof -
  have p: "parse_salary float (or_None (form_salary form)) = Inl ()"
    using assms by (simp add: parse_salary_def or_None_def)
  have 1: "fst (edit_employee float db employee_id (POST form)) = db"
    by (simp add: edit_employee_def p Let_def split: option.splits sum.splits)
  have 2: "get_or_404 db employee_id = Inr (Some employee) \<and> form_name form = Some name \<and>
          \<not> fk_violation db (form_department_id form) \<longrightarrow>
            snd (edit_employee float db employee_id (POST form)) =
              Render_edit
                (employee\<lparr>emp_name := name, emp_department_id := form_department_id form,
                           emp_hire_date := or_None (form_hire_date form)\<rparr>)
                (get_departments db) [Flash ''Invalid salary format'' ''error'']"
    by (simp add: edit_employee_def p Let_def autoflush_def)
  from 1 2 show ?thesis by simp
qed

text \<open>The theorem on the scenario database, with the salary text \<open>lots\<close>.\<close>

theorem edit_employee_invalid_salary_witness:
  "form_salary \<lparr>form_name = Some ''Ada L'', form_department_id = None,
               form_salary = Some ''lots'', form_hire_date = Some ''''\<rparr> = Some ''lots'' \<and>
   ''lots'' \<noteq> [] \<and> scenario_float ''lots'' = None \<and>
   get_or_404 scenario_db 1 = Inr (Some (hd (employees scenario_db))) \<and>
   \<not> fk_violation scenario_db None \<and>
   edit_employee scenario_float scenario_db 1
       (POST \<lparr>form_name = Some ''Ada L'', form_department_id = None,
              form_salary = Some ''lots'', form_hire_date = Some ''''\<rparr>) =
     (scenario_db,
      Render_edit
        \<lparr>emp_id = 1, emp_name = ''Ada L'', emp_department_id = None,
         emp_salary = Some 120000, emp_hire_date = None\<rparr>
        [\<lparr>dept_id = 1, dept_name = ''Engineering''\<rparr>]
        [Flash ''Invalid salary format'' ''error''])"
proof -
  let ?f = "\<lparr>form_name = Some ''Ada L'', form_department_id = None,
               form_salary = Some ''lots'', form_hire_date = Some ''''\<rparr>"
  have a: "form_salary ?f = Some ''lots''" by simp
  have b: "''lots'' \<noteq> []" by simp
  have c: "scenario_float ''lots'' = None" by (simp add: scenario_float_def)
  have d: "get_or_404 scenario_db 1 = Inr (Some (hd (employees scenario_db)))"
    by (simp add: get_or_404_def scenario_db_def sqlite_integer_def)
  have e: "form_name ?f = Some ''Ada L''" by simp
  have k: "\<not> fk_violation scenario_db None" by (simp add: fk_violation_def)
  have k': "\<not> fk_violation scenario_db (form_department_id ?f)"
    by (simp add: fk_violation_def)
  have g: "Render_edit
      ((hd (employees scenario_db))\<lparr>emp_name := ''Ada L'',
          emp_department_id := form_department_id ?f,
          emp_hire_date := or_None (form_hire_date ?f)\<rparr>)
      (get_departments scenario_db) [Flash ''Invalid salary format'' ''error''] =
     Render_edit
        \<lparr>emp_id = 1, emp_name = ''Ada L'', emp_department_id = None,
         emp_salary = Some 120000, emp_hire_date = None\<rparr>
        [\<lparr>dept_id = 1, dept_name = ''Engineering''\<rparr>]
        [Flash ''Invalid salary format'' ''error'']"
    by (simp add: scenario_db_def or_None_def get_departments_def)
  from a b c d e k'
    edit_employee_invalid_salary [where form = ?f and s = "''lots''" and float = scenario_float
      and db = scenario_db and employee_id = 1 and employee = "hd (employees scenario_db)"
      and name = "''Ada L''"]
  have "fst (edit_employee scenario_float scenario_db 1 (POST ?f)) = scenario_db"
    and "snd (edit_employee scenario_float scenario_db 1 (POST ?f)) =
      Render_edit
      ((hd (employees scenario_db))\<lparr>emp_name := ''Ada L'',
          emp_department_id := form_department_id ?f,
          emp_hire_date := or_None (form_hire_date ?f)\<rparr>)
      (get_departments scenario_db) [Flash ''Invalid salary format'' ''error'']"
    by blast+
  then have "edit_employee scenario_float scenario_db 1 (POST ?f) =
     (scenario_db,
      Render_edit
        \<lparr>emp_id = 1, emp_name = ''Ada L'', emp_department_id = None,
         emp_salary = Some 120000, emp_hire_date = None\<rparr>
        [\<lparr>dept_id = 1, dept_name = ''Engineering''\<rparr>]
        [Flash ''Invalid salary format'' ''error''])"
    using g by (metis prod.collapse)
  with a b c d k show ?thesis by blast
qed

section \<open>Creating an employee and fetching it\<close>

lemma next_rowid_fresh: "next_rowid es \<notin> emp_id ` set es"
proof
  assume "next_rowid es \<in> emp_id ` set es"
  then obtain e where e: "e \<in> set es" "emp_id e = next_rowid es" by auto
  then have ne: "es \<noteq> []" by auto
  have "emp_id e \<le> Max (set (map emp_id es))"
    using e(1) by (intro Max_ge) auto
  with e(2) ne show False by (simp add: next_rowid_def)
qed

lemma filter_primary_key:
  assumes "distinct (map dept_id ds)" and "dep \<in> set ds"
  shows "filter (\<lambda>d. dept_id dep = dept_id d) ds = [dep]"
  using assms
proof (induction ds)
  case Nil
  then show ?case by simp
next
  case (Cons d ds)
  show ?case
  proof (cases "d = dep")
    case True
    then have "dept_id dep \<notin> dept_id ` set ds" using Cons.prems(1) by simp
    then have "filter (\<lambda>x. dept_id dep = dept_id x) ds = []"
      by (auto simp: filter_empty_conv)
    with True show ?thesis by simp
  next
    case False
    then have "dep \<in> set ds" using Cons.prems(2) by simp
    moreover from this have "dept_id d \<noteq> dept_id dep" using Cons.prems(1) by auto
    ultimately show ?thesis using Cons by simp
  qed
qed

lemma left_join_row_referenced:
  assumes "distinct (map dept_id ds)" and "dep \<in> set ds"
    and "emp_department_id e = Some (dept_id dep)"
  shows "left_join_row ds e = [select_columns e (Some (dept_name dep))]"
  using filter_primary_key [OF assms(1,2)] assms(3) by (simp add: left_join_row_def)

lemma left_join_appended:
  "left_join (db\<lparr>employees := employees db @ [e]\<rparr>) =
     left_join db @ left_join_row (departments db) e"
  by (simp add: left_join_def)

lemma fetch_appended:
  assumes "emp_id e \<notin> emp_id ` set (employees db)"
    and "distinct (map dept_id (departments db))" and "dep \<in> set (departments db)"
    and "emp_department_id e = Some (dept_id dep)"
  shows "filter (\<lambda>r. row_id r = emp_id e) (left_join (db\<lparr>employees := employees db @ [e]\<rparr>)) =
           [select_columns e (Some (dept_name dep))]"
  using no_row_of_unknown_id [OF assms(1)] left_join_row_referenced [OF assms(2,3,4)]
  by (simp add: left_join_appended select_columns_def)

text \<open>
  C4, as stated, fails for the empty hire-date string: the view stores NULL for it, and
  the fetched row has no hire date.
\<close>

theorem create_then_get_employee_counterexample:
  "create_employee scenario_float scenario_db
       (POST \<lparr>form_name = Some ''Bob'', form_department_id = Some 1,
              form_salary = Some ''50000'', form_hire_date = Some ''''\<rparr>) =
     (scenario_db\<lparr>employees := employees scenario_db @
         [\<lparr>emp_id = 2, emp_name = ''Bob'', emp_department_id = Some 1,
           emp_salary = Some 50000, emp_hire_date = None\<rparr>]\<rparr>,
      Redirect_list_employees [Flash ''Employee created successfully!'' ''success'']) \<and>
   EmployeeDBInterface_get_employee
       (scenario_db\<lparr>employees := employees scenario_db @
         [\<lparr>emp_id = 2, emp_name = ''Bob'', emp_department_id = Some 1,
           emp_salary = Some 50000, emp_hire_date = None\<rparr>]\<rparr>) 2 =
     Inr (Some \<lparr>row_id = 2, row_name = ''Bob'', row_department_id = Some 1,
           row_department_name = Some ''Engineering'', row_salary = Some 50000,
           row_hire_date = None\<rparr>) \<and>
   row_hire_date \<lparr>row_id = 2, row_name = ''Bob'', row_department_id = Some 1,
           row_department_name = Some ''Engineering'', row_salary = Some 50000,
           row_hire_date = None\<rparr> \<noteq> Some ''''"
  by (simp add: create_employee_def or_None_def parse_salary_def scenario_float_def
      commit_insert_def fk_violation_def scenario_db_def next_rowid_def sqlite_integer_def
      EmployeeDBInterface_get_employee_def left_join_def left_join_row_def select_columns_def)

text \<open>
  C4, amended: creating an employee with a name, a reference to an existing
  department, a salary text that \<open>float\<close> parses and a non-empty hire-date string
  succeeds and appends one row under a fresh identifier, the next row id of the table
  (a SQLite integer as long as the table has not used up the row ids); fetching that
  identifier, in either adapter, returns the name, the department reference, the
  parsed salary and the hire date together with the name of the referenced
  department.
\<close>

theorem create_then_get_employee:
  assumes "form_name form = Some name"
    and "form_department_id form = Some (dept_id dep)"
    and "dep \<in> set (departments db)"
    and "distinct (map dept_id (departments db))"
    and "form_salary form = Some s" and "s \<noteq> []" and "float s = Some v"
    and "form_hire_date form = Some h" and "h \<noteq> []"
    and "sqlite_integer (next_rowid (employees db))"
  shows "snd (create_employee float db (POST form)) =
           Redirect_list_employees [Flash ''Employee created successfully!'' ''success''] \<and>
         fst (create_employee float db (POST form)) =
           db\<lparr>employees := employees db @
                [\<lparr>emp_id = next_rowid (employees db), emp_name = name,
                  emp_department_id = Some (dept_id dep), emp_salary = Some v,
                  emp_hire_date = Some h\<rparr>]\<rparr> \<and>
         next_rowid (employees db) \<notin> emp_id ` set (employees db) \<and>
         EmployeeDBInterface_get_employee (fst (create_employee float db (POST form)))
             (next_rowid (employees db)) =
           Inr (Some \<lparr>row_id = next_rowid (employees db), row_name = name,
                 row_department_id = Some (dept_id dep),
                 row_department_name = Some (dept_name dep), row_salary = Some v,
                 row_hire_date = Some h\<rparr>) \<and>
         handle_call_tool eng (fst (create_employee float db (POST form)))
             ''get_employee'' (a\<lparr>arg_employee_id := Some (next_rowid (employees db))\<rparr>) =
           Inr [Json_dumps (Json_employee
             \<lparr>row_id = next_rowid (employees db), row_name = name,
              row_department_id = Some (dept_id dep),
              row_department_name = Some (dept_name dep), row_salary = Some v,
              row_hire_date = Some h\<rparr>)]"
proof -
  let ?e = "\<lparr>emp_id = next_rowid (employees db), emp_name = name,
             emp_department_id = Some (dept_id dep), emp_salary = Some v,
             emp_hire_date = Some h\<rparr>"
  let ?db = "db\<lparr>employees := employees db @ [?e]\<rparr>"
  have p: "parse_salary float (or_None (form_salary form)) = Inr (Some v)"
    using assms(5-7) by (simp add: parse_salary_def or_None_def)
  have fk: "\<not> fk_violation db (Some (dept_id dep))"
    using assms(3) by (simp add: fk_violation_def)
  have c: "create_employee float db (POST form) =
             (?db, Redirect_list_employees [Flash ''Employee created successfully!'' ''success''])"
    using assms(1,2,8,9) p fk
    by (simp add: create_employee_def commit_insert_def or_None_def)
  have fresh: "emp_id ?e \<notin> emp_id ` set (employees db)"
    using next_rowid_fresh [of "employees db"] by simp
  have f: "filter (\<lambda>r. row_id r = next_rowid (employees db)) (left_join ?db) =
             [select_columns ?e (Some (dept_name dep))]"
    using fetch_appended [OF fresh assms(4,3), of] by simp
  have g: "EmployeeDBInterface_get_employee ?db (next_rowid (employees db)) =
             Inr (Some (select_columns ?e (Some (dept_name dep))))"
    using assms(10) by (simp add: EmployeeDBInterface_get_employee_def f)
  have t: "handle_call_tool eng ?db ''get_employee''
             (a\<lparr>arg_employee_id := Some (next_rowid (employees db))\<rparr>) =
           Inr [Json_dumps (Json_employee (select_columns ?e (Some (dept_name dep))))]"
    using assms(10) by (simp add: handle_call_tool_def f dumps_content_def)
  show ?thesis
    using c g t next_rowid_fresh [of "employees db"] by (simp add: select_columns_def)
qed

text \<open>The theorem on the scenario database: Bob joins Engineering and gets identifier 2.\<close>

theorem create_then_get_employee_witness:
  "\<lparr>dept_id = 1, dept_name = ''Engineering''\<rparr> \<in> set (departments scenario_db) \<and>
   distinct (map dept_id (departments scenario_db)) \<and>
   ''50000'' \<noteq> [] \<and> scenario_float ''50000'' = Some 50000 \<and> ''2024-02-01'' \<noteq> [] \<and>
   next_rowid (employees scenario_db) = 2 \<and> sqlite_integer 2 \<and>
   EmployeeDBInterface_get_employee
       (fst (create_employee scenario_float scenario_db
          (POST \<lparr>form_name = Some ''Bob'', form_department_id = Some 1,
                 form_salary = Some ''50000'', form_hire_date = Some ''2024-02-01''\<rparr>))) 2 =
     Inr (Some \<lparr>row_id = 2, row_name = ''Bob'', row_department_id = Some 1,
           row_department_name = Some ''Engineering'', row_salary = Some 50000,
           row_hire_date = Some ''2024-02-01''\<rparr>)"
proof -
  let ?f = "\<lparr>form_name = Some ''Bob'', form_department_id = Some 1,
              form_salary = Some ''50000'', form_hire_date = Some ''2024-02-01''\<rparr>"
  let ?d = "\<lparr>dept_id = 1, dept_name = ''Engineering''\<rparr>"
  have 1: "form_name ?f = Some ''Bob''" by simp
  have 2: "form_department_id ?f = Some (dept_id ?d)" by simp
  have 3: "?d \<in> set (departments scenario_db)" by (simp add: scenario_db_def)
  have 4: "distinct (map dept_id (departments scenario_db))" by (simp add: scenario_db_def)
  have 5: "form_salary ?f = Some ''50000''" by simp
  have 6: "''50000'' \<noteq> []" by simp
  have 7: "scenario_float ''50000'' = Some 50000" by (simp add: scenario_float_def)
  have 8: "form_hire_date ?f = Some ''2024-02-01''" by simp
  have 9: "''2024-02-01'' \<noteq> []" by simp
  have n: "next_rowid (employees scenario_db) = 2"
    by (simp add: next_rowid_def scenario_db_def)
  have i: "sqlite_integer 2" by (simp add: sqlite_integer_def)
  have 10: "sqlite_integer (next_rowid (employees scenario_db))"
    by (simp only: n i)
  from create_then_get_employee [where form = ?f and name = "''Bob''" and dep = ?d
      and db = scenario_db and s = "''50000''" and float = scenario_float and v = 50000
      and h = "''2024-02-01''" and eng = example_engine and a = no_arguments,
      OF 1 2 3 4 5 6 7 8 9 10]
  have "EmployeeDBInterface_get_employee
       (fst (create_employee scenario_float scenario_db (POST ?f)))
       (next_rowid (employees scenario_db)) =
     Inr (Some \<lparr>row_id = next_rowid (employees scenario_db), row_name = ''Bob'',
           row_department_id = Some (dept_id ?d),
           row_department_name = Some (dept_name ?d), row_salary = Some 50000,
           row_hire_date = Some ''2024-02-01''\<rparr>)"
    by blast
  then have "EmployeeDBInterface_get_employee
       (fst (create_employee scenario_float scenario_db (POST ?f))) 2 =
     Inr (Some \<lparr>row_id = 2, row_name = ''Bob'', row_department_id = Some 1,
           row_department_name = Some ''Engineering'', row_salary = Some 50000,
           row_hire_date = Some ''2024-02-01''\<rparr>)"
    by (simp add: n)
  with 3 4 6 7 9 n i show ?thesis by blast
qed

section \<open>Listing employees\<close>

lemma length_left_join_crowd: "length (left_join (crowd n)) = nat n"
  by (simp add: left_join_def crowd_def left_join_row_def comp_def length_concat sum_list_triv)

lemma length_order_by_id: "length (order_by_id rows) = length rows"
  by (simp add: order_by_id_def)

lemma sorted_order_by_id: "sorted (map row_id (order_by_id rows))"
  by (simp add: order_by_id_def)

lemma sorted_sql_limit: "sorted (map f rows) \<Longrightarrow> sorted (map f (sql_limit n rows))"
  by (simp add: sql_limit_def take_map [symmetric] sorted_wrt_take)

lemma list_employees_tool_eq:
  "handle_call_tool eng db ''list_employees'' a =
     (case EmployeeDBInterface_list_employees db (arg_limit a) of
        Inl e \<Rightarrow> Inl e
      | Inr rows \<Rightarrow> Inr [Json_dumps (Json_employees rows)])"
  by (simp add: handle_call_tool_def EmployeeDBInterface_list_employees_def Let_def
      dumps_content_def)

lemma list_employees_in_range:
  "0 \<le> n \<Longrightarrow> n < 2 ^ 63 \<Longrightarrow>
   EmployeeDBInterface_list_employees db (Some n) =
     Inr (take (nat n) (order_by_id (left_join db)))"
  by (simp add: EmployeeDBInterface_list_employees_def default_arg_def sqlite_integer_def
      sql_limit_def)

text \<open>
  C6, as stated, fails for a limit above 1000: on a database of 1001 employees the
  directly callable adapter, called with limit 2000, returns all 1001 rows.
\<close>

theorem list_employees_limit_counterexample:
  "EmployeeDBInterface_list_employees (crowd 1001) (Some 2000) =
     Inr (order_by_id (left_join (crowd 1001))) \<and>
   length (order_by_id (left_join (crowd 1001))) = 1001"
proof -
  have "take 2000 (order_by_id (left_join (crowd 1001))) = order_by_id (left_join (crowd 1001))"
    by (simp add: length_order_by_id length_left_join_crowd)
  then show ?thesis
    by (simp add: list_employees_in_range length_order_by_id length_left_join_crowd)
qed

text \<open>
  C6, amended: in either adapter the limit of \<open>list_employees\<close> is 100 when none is
  supplied and the rows returned are ordered by employee identifier; for a limit from
  0 to \<open>2^63 - 1\<close> they are the first rows, as many as the limit says, of all rows
  in that order, so their number never exceeds the limit, and never 1000 for a limit
  from 1 to 1000, the range that the tool's schema declares. The protocol server
  answers with the rows of the directly callable adapter.
\<close>

theorem list_employees_limit:
  "EmployeeDBInterface_list_employees db None =
     EmployeeDBInterface_list_employees db (Some 100) \<and>
   handle_call_tool eng db ''list_employees'' (a\<lparr>arg_limit := l\<rparr>) =
     (case EmployeeDBInterface_list_employees db l of
        Inl e \<Rightarrow> Inl e
      | Inr rows \<Rightarrow> Inr [Json_dumps (Json_employees rows)]) \<and>
   (EmployeeDBInterface_list_employees db l = Inr rows \<longrightarrow> sorted (map row_id rows)) \<and>
   EmployeeDBInterface_list_employees db None =
     Inr (take 100 (order_by_id (left_join db))) \<and>
   length (take 100 (order_by_id (left_join db))) \<le> 100 \<and>
   (0 \<le> n \<and> n < 2 ^ 63 \<longrightarrow>
      EmployeeDBInterface_list_employees db (Some n) =
        Inr (take (nat n) (order_by_id (left_join db))) \<and>
      length (take (nat n) (order_by_id (left_join db))) \<le> nat n) \<and>
   (1 \<le> n \<and> n \<le> 1000 \<longrightarrow>
      EmployeeDBInterface_list_employees db (Some n) =
        Inr (take (nat n) (order_by_id (left_join db))) \<and>
      length (take (nat n) (order_by_id (left_join db))) \<le> 1000)"
proof (intro conjI impI)
  show "EmployeeDBInterface_list_employees db None =
     EmployeeDBInterface_list_employees db (Some 100)"
    by (simp add: EmployeeDBInterface_list_employees_def default_arg_def)
  show "handle_call_tool eng db ''list_employees'' (a\<lparr>arg_limit := l\<rparr>) =
     (case EmployeeDBInterface_list_employees db l of
        Inl e \<Rightarrow> Inl e
      | Inr rows \<Rightarrow> Inr [Json_dumps (Json_employees rows)])"
    by (simp add: list_employees_tool_eq)
  show "sorted (map row_id rows)" if "EmployeeDBInterface_list_employees db l = Inr rows"
  proof -
    from that have "rows = sql_limit (default_arg 100 l) (order_by_id (left_join db))"
      by (auto simp: EmployeeDBInterface_list_employees_def Let_def split: if_splits)
    then show ?thesis by (simp add: sorted_sql_limit sorted_order_by_id)
  qed
  show "EmployeeDBInterface_list_employees db None =
     Inr (take 100 (order_by_id (left_join db)))"
    by (simp add: EmployeeDBInterface_list_employees_def default_arg_def sqlite_integer_def
        sql_limit_def)
  show "length (take 100 (order_by_id (left_join db))) \<le> 100"
    by simp
  show "EmployeeDBInterface_list_employees db (Some n) =
        Inr (take (nat n) (order_by_id (left_join db)))" if "0 \<le> n \<and> n < 2 ^ 63"
    using that by (simp add: list_employees_in_range)
  show "length (take (nat n) (order_by_id (left_join db))) \<le> nat n"
    by simp
  show "EmployeeDBInterface_list_employees db (Some n) =
        Inr (take (nat n) (order_by_id (left_join db)))" if "1 \<le> n \<and> n \<le> 1000"
    using that by (simp add: list_employees_in_range)
  show "length (take (nat n) (order_by_id (left_join db))) \<le> 1000" if "1 \<le> n \<and> n \<le> 1000"
  proof -
    have "length (take (nat n) (order_by_id (left_join db))) \<le> nat n" by simp
    with that show ?thesis by linarith
  qed
qed

text \<open>
  The theorem on a database of five employees with limit 3: the rows of the employees
  1, 2 and 3 are returned.
\<close>

theorem list_employees_limit_witness:
  "(1::int) \<le> 3 \<and> (3::int) \<le> 1000 \<and>
   EmployeeDBInterface_list_employees (crowd 5) (Some 3) =
     Inr (take (nat 3) (order_by_id (left_join (crowd 5)))) \<and>
   map row_id (take (nat 3) (order_by_id (left_join (crowd 5)))) = [1, 2, 3] \<and>
   length (take (nat 3) (order_by_id (left_join (crowd 5)))) \<le> 1000 \<and>
   length (left_join (crowd 5)) = 5"
proof -
  have a: "(1::int) \<le> 3 \<and> (3::int) \<le> 1000" by simp
  have j: "map row_id (take (nat 3) (order_by_id (left_join (crowd 5)))) = [1, 2, 3]"
    by code_simp
  have k: "length (left_join (crowd 5)) = 5"
    by (simp add: length_left_join_crowd)
  from a list_employees_limit [where db = "crowd 5" and eng = example_engine
      and a = no_arguments and l = None and n = 3]
  have "EmployeeDBInterface_list_employees (crowd 5) (Some 3) =
          Inr (take (nat 3) (order_by_id (left_join (crowd 5)))) \<and>
        length (take (nat 3) (order_by_id (left_join (crowd 5)))) \<le> 1000"
    by blast
  with a j k show ?thesis by blast
qed

section \<open>\<open>LIKE\<close> as substring containment\<close>

lemma sqlite_fold_percent [simp]: "sqlite_fold c = CHR ''%'' \<longleftrightarrow> c = CHR ''%''"
proof
  assume h: "sqlite_fold c = CHR ''%''"
  show "c = CHR ''%''"
  proof (rule ccontr)
    assume n: "c \<noteq> CHR ''%''"
    with h have r: "65 \<le> (of_char c :: nat) \<and> (of_char c :: nat) \<le> 90"
      and e: "char_of (of_char c + 32 :: nat) = CHR ''%''"
      by (auto simp: sqlite_fold_def Let_def split: if_splits)
    from e have "(of_char (char_of (of_char c + 32 :: nat)) :: nat) = of_char CHR ''%''"
      by simp
    with r show False by (simp add: of_char_of)
  qed
qed (simp add: sqlite_fold_def)

lemma sqlite_fold_underscore [simp]: "sqlite_fold c = CHR ''_'' \<longleftrightarrow> c = CHR ''_''"
proof
  assume h: "sqlite_fold c = CHR ''_''"
  show "c = CHR ''_''"
  proof (rule ccontr)
    assume n: "c \<noteq> CHR ''_''"
    with h have r: "65 \<le> (of_char c :: nat) \<and> (of_char c :: nat) \<le> 90"
      and e: "char_of (of_char c + 32 :: nat) = CHR ''_''"
      by (auto simp: sqlite_fold_def Let_def split: if_splits)
    from e have "(of_char (char_of (of_char c + 32 :: nat)) :: nat) = of_char CHR ''_''"
      by simp
    with r show False by (simp add: of_char_of)
  qed
qed (simp add: sqlite_fold_def)

lemma sqlite_fold_nul [simp]: "sqlite_fold c = CHR 0x00 \<longleftrightarrow> c = CHR 0x00"
proof
  assume h: "sqlite_fold c = CHR 0x00"
  show "c = CHR 0x00"
  proof (rule ccontr)
    assume n: "c \<noteq> CHR 0x00"
    with h have r: "65 \<le> (of_char c :: nat) \<and> (of_char c :: nat) \<le> 90"
      and e: "char_of (of_char c + 32 :: nat) = CHR 0x00"
      by (auto simp: sqlite_fold_def Let_def split: if_splits)
    from e have "(of_char (char_of (of_char c + 32 :: nat)) :: nat) = of_char (CHR 0x00)"
      by simp
    with r show False by (simp add: of_char_of)
  qed
qed (simp add: sqlite_fold_def)

lemma sqlite_fold_bytes:
  "((of_char (sqlite_fold c) :: nat) < 128) = ((of_char c :: nat) < 128)"
  by (auto simp: sqlite_fold_def Let_def of_char_of)

lemma compare_percent_only [simp]: "pattern_compare ''%'' s"
  by (induction s) auto

lemma compare_percent_cons:
  "pattern_compare (CHR ''%'' # q) s \<longleftrightarrow> (\<exists>ss. suffix ss s \<and> pattern_compare q ss)"
proof (induction s)
  case Nil
  then show ?case by simp
next
  case (Cons c cs)
  show ?case
  proof
    assume "pattern_compare (CHR ''%'' # q) (c # cs)"
    then consider "pattern_compare q (c # cs)" | "pattern_compare (CHR ''%'' # q) cs" by auto
    then show "\<exists>ss. suffix ss (c # cs) \<and> pattern_compare q ss"
    proof cases
      case 1
      then show ?thesis by (intro exI [of _ "c # cs"]) simp
    next
      case 2
      with Cons obtain ss where "suffix ss cs" "pattern_compare q ss" by auto
      then show ?thesis by (intro exI [of _ ss]) (simp add: suffix_ConsI)
    qed
  next
    assume "\<exists>ss. suffix ss (c # cs) \<and> pattern_compare q ss"
    then obtain ss where ss: "suffix ss (c # cs)" "pattern_compare q ss" by auto
    then have "ss = c # cs \<or> suffix ss cs" by (auto simp: suffix_Cons)
    then show "pattern_compare (CHR ''%'' # q) (c # cs)"
      using ss(2) Cons by auto
  qed
qed

lemma compare_prefix:
  "literal_filter p \<Longrightarrow>
   pattern_compare (p @ ''%'') s \<longleftrightarrow> prefix (map sqlite_fold p) (map sqlite_fold s)"
proof (induction p arbitrary: s)
  case Nil
  then show ?case by simp
next
  case (Cons a p)
  then have wf: "literal_filter p" and a: "a \<noteq> CHR ''%''" "a \<noteq> CHR ''_''"
    by (auto simp: literal_filter_def)
  show ?case
  proof (cases s)
    case Nil
    then show ?thesis using a by simp
  next
    case (Cons c cs)
    then show ?thesis using a Cons.IH [OF wf, of cs] by auto
  qed
qed

lemma suffix_map_conv:
  "(\<exists>ss. suffix ss s \<and> prefix xs (map f ss)) \<longleftrightarrow> (\<exists>ys. suffix ys (map f s) \<and> prefix xs ys)"
proof
  assume "\<exists>ss. suffix ss s \<and> prefix xs (map f ss)"
  then obtain ss where "suffix ss s" "prefix xs (map f ss)" by auto
  then show "\<exists>ys. suffix ys (map f s) \<and> prefix xs ys"
    by (intro exI [of _ "map f ss"]) (auto simp: suffix_def)
next
  assume "\<exists>ys. suffix ys (map f s) \<and> prefix xs ys"
  then obtain ys where ys: "suffix ys (map f s)" "prefix xs ys" by auto
  then obtain zs where "map f s = zs @ ys" by (auto simp: suffix_def)
  then obtain s1 s2 where "s = s1 @ s2" "map f s2 = ys"
    by (auto simp: map_eq_append_conv)
  with ys(2) show "\<exists>ss. suffix ss s \<and> prefix xs (map f ss)"
    by (intro exI [of _ s2]) (auto simp: suffix_def)
qed

lemma compare_contains:
  assumes "literal_filter p"
  shows "pattern_compare (''%'' @ p @ ''%'') s \<longleftrightarrow>
           sublist (map sqlite_fold p) (map sqlite_fold s)"
proof -
  have "pattern_compare (''%'' @ p @ ''%'') s \<longleftrightarrow>
          (\<exists>ss. suffix ss s \<and> pattern_compare (p @ ''%'') ss)"
    using compare_percent_cons [of "p @ ''%''" s] by simp
  also have "\<dots> \<longleftrightarrow> (\<exists>ss. suffix ss s \<and> prefix (map sqlite_fold p) (map sqlite_fold ss))"
    by (simp add: compare_prefix [OF assms])
  also have "\<dots> \<longleftrightarrow> sublist (map sqlite_fold p) (map sqlite_fold s)"
    by (simp only: suffix_map_conv sublist_altdef')
  finally show ?thesis .
qed

lemma c_string_literal:
  "literal_filter p \<Longrightarrow> c_string (''%'' @ p @ ''%'') = ''%'' @ p @ ''%''"
  by (auto simp: c_string_def literal_filter_def takeWhile_eq_all_conv)

lemma like_contains:
  assumes "literal_filter p"
  shows "sqlite_like (''%'' @ p @ ''%'') s \<longleftrightarrow>
           sublist (map sqlite_fold p) (map sqlite_fold (c_string s))"
  unfolding sqlite_like_def c_string_literal [OF assms] by (rule compare_contains [OF assms])

lemma compare_fold_pattern:
  "map sqlite_fold p = map sqlite_fold p' \<Longrightarrow> pattern_compare p s = pattern_compare p' s"
proof (induction p s arbitrary: p' rule: pattern_compare.induct)
  case (1 s)
  then show ?case by simp
next
  case (2 p ps)
  then obtain q qs where p': "p' = q # qs" "sqlite_fold p = sqlite_fold q"
    "map sqlite_fold ps = map sqlite_fold qs" by (cases p') auto
  have "p = CHR ''%'' \<longleftrightarrow> q = CHR ''%''"
    using p'(2) by (metis sqlite_fold_percent)
  then show ?case using p' 2 by auto
next
  case (3 p ps c cs)
  then obtain q qs where p': "p' = q # qs" "sqlite_fold p = sqlite_fold q"
    "map sqlite_fold ps = map sqlite_fold qs" by (cases p') auto
  have pc: "p = CHR ''%'' \<longleftrightarrow> q = CHR ''%''"
    using p'(2) by (metis sqlite_fold_percent)
  have us: "p = CHR ''_'' \<longleftrightarrow> q = CHR ''_''"
    using p'(2) by (metis sqlite_fold_underscore)
  show ?case
  proof (cases "p = CHR ''%''")
    case True
    with pc have q: "q = CHR ''%''" by simp
    have a: "pattern_compare ps (c # cs) = pattern_compare qs (c # cs)"
      using "3.IH"(1) [OF True p'(3)] .
    have b: "pattern_compare (p # ps) cs = pattern_compare (q # qs) cs"
      using "3.IH"(2) [OF True, of "q # qs"] p' by simp
    show ?thesis using True q a b p'(1) by simp
  next
    case False
    with pc have q: "q \<noteq> CHR ''%''" by simp
    have a: "pattern_compare ps cs = pattern_compare qs cs"
      using "3.IH"(3) [OF False p'(3)] .
    show ?thesis using False q a us p'(1,2) by simp
  qed
qed

lemma c_string_fold: "map sqlite_fold (c_string p) = c_string (map sqlite_fold p)"
  by (simp add: c_string_def takeWhile_map comp_def)

lemma like_fold_pattern:
  assumes "map sqlite_fold p = map sqlite_fold p'"
  shows "sqlite_like p s = sqlite_like p' s"
proof -
  have "map sqlite_fold (c_string p) = map sqlite_fold (c_string p')"
    by (simp add: c_string_fold assms)
  then show ?thesis unfolding sqlite_like_def by (rule compare_fold_pattern)
qed

lemma utf8_bytes_fold: "utf8_bytes (map sqlite_fold p) = utf8_bytes p"
  by (simp add: utf8_bytes_def comp_def sqlite_fold_bytes)

lemma too_complex_fold:
  assumes "map sqlite_fold p = map sqlite_fold p'"
  shows "too_complex p = too_complex p'"
proof -
  have "utf8_bytes p = utf8_bytes p'"
    using utf8_bytes_fold [of p] utf8_bytes_fold [of p'] assms by simp
  then show ?thesis by (simp add: too_complex_def)
qed

section \<open>Searching employees\<close>

lemma set_sql_limit: "set (sql_limit n rows) \<subseteq> set rows"
  by (auto simp: sql_limit_def dest: in_set_takeD)

lemma set_order_by_id [simp]: "set (order_by_id rows) = set rows"
  by (simp add: order_by_id_def)

lemma set_sql_where [simp]:
  "set (sql_where conds rows) = {r \<in> set rows. \<forall>c\<in>set conds. holds c r}"
  by (auto simp: sql_where_def list_all_iff)

lemma select_search_rows:
  assumes "select_search eng db conds limit = Inr rows" and "r \<in> set rows"
  shows "\<forall>c\<in>set conds. holds c r"
proof (cases "list_ex (\<lambda>c. too_complex (pattern_of c)) conds")
  case True
  with assms show ?thesis by (auto simp: select_search_def split: if_splits)
next
  case False
  with assms(1) have "rows = sql_limit limit (order_by_id (sql_where conds (left_join db)))"
    by (auto simp: select_search_def)
  with assms(2) have "r \<in> set (order_by_id (sql_where conds (left_join db)))"
    using set_sql_limit by fastforce
  then show ?thesis by simp
qed

lemma search_employees_tool_eq:
  "handle_call_tool eng db ''search_employees'' a =
     (case EmployeeDBInterface_search_employees eng db (arg_name a) (arg_department a)
             (arg_limit a) of
        Inl e \<Rightarrow> Inl e
      | Inr rows \<Rightarrow> Inr [Json_dumps (Json_employees rows)])"
  by (simp add: handle_call_tool_def EmployeeDBInterface_search_employees_def Let_def
      dumps_content_def split: sum.splits)

lemma search_both_filters:
  assumes "name \<noteq> []" and "department \<noteq> []"
    and "EmployeeDBInterface_search_employees eng db (Some name) (Some department) l = Inr rows"
    and "r \<in> set rows"
  shows "holds (E_name_like (''%'' @ name @ ''%'')) r \<and>
         holds (D_name_like (''%'' @ department @ ''%'')) r"
proof -
  from assms(3) have "select_search eng db (search_conditions name department)
      (default_arg 50 l) = Inr rows"
    by (auto simp: EmployeeDBInterface_search_employees_def Let_def default_arg_def
        split: if_splits)
  from select_search_rows [OF this assms(4)] show ?thesis
    using assms(1,2) by (simp add: search_conditions_def)
qed

lemma holds_name_contains:
  "literal_filter name \<Longrightarrow>
   holds (E_name_like (''%'' @ name @ ''%'')) r \<longleftrightarrow>
     sublist (map sqlite_fold name) (map sqlite_fold (c_string (row_name r)))"
  using like_contains [of name "row_name r"] by simp

lemma holds_department_contains:
  "literal_filter department \<Longrightarrow>
   holds (D_name_like (''%'' @ department @ ''%'')) r \<longleftrightarrow>
     (\<exists>dn. row_department_name r = Some dn \<and>
           sublist (map sqlite_fold department) (map sqlite_fold (c_string dn)))"
  using like_contains [of department]
  by (cases "row_department_name r") simp_all

text \<open>
  C2, as stated, fails: on the scenario database the search for name \<open>ada\<close> and
  department \<open>Eng\<close> returns the row of Ada, whose name does not contain \<open>ada\<close>.
\<close>

theorem search_employees_both_filters_counterexample:
  "EmployeeDBInterface_search_employees example_engine scenario_db (Some ''ada'')
       (Some ''Eng'') None = Inr [ada_row] \<and>
   \<not> sublist ''ada'' (row_name ada_row)"
  by code_simp

text \<open>
  C2, amended: when both filters are non-empty, every returned row, in either
  adapter, has a name that matches the name filter and a department name that matches
  the department filter, both under SQLite's \<open>LIKE\<close> with the filter between two
  \<open>%\<close>; for a filter without \<open>%\<close>, \<open>_\<close> and NUL this is containment of the filter as a
  substring, up to the case of ASCII letters, in the name read up to its first NUL.
  Both conditions hold of every row: a conjunction.
\<close>

theorem search_employees_both_filters:
  assumes "name \<noteq> []" and "department \<noteq> []"
    and "EmployeeDBInterface_search_employees eng db (Some name) (Some department) l = Inr rows"
    and "r \<in> set rows"
  shows "sqlite_like (''%'' @ name @ ''%'') (row_name r) \<and>
         (\<exists>dn. row_department_name r = Some dn \<and>
               sqlite_like (''%'' @ department @ ''%'') dn) \<and>
         (literal_filter name \<longrightarrow>
            sublist (map sqlite_fold name) (map sqlite_fold (c_string (row_name r)))) \<and>
         (literal_filter department \<longrightarrow>
            (\<exists>dn. row_department_name r = Some dn \<and>
                  sublist (map sqlite_fold department) (map sqlite_fold (c_string dn)))) \<and>
         handle_call_tool eng db ''search_employees''
             (a\<lparr>arg_name := Some name, arg_department := Some department, arg_limit := l\<rparr>) =
           Inr [Json_dumps (Json_employees rows)]"
proof -
  note h = search_both_filters [OF assms]
  from h have 1: "sqlite_like (''%'' @ name @ ''%'') (row_name r)" by simp
  from h have 2: "\<exists>dn. row_department_name r = Some dn \<and>
                      sqlite_like (''%'' @ department @ ''%'') dn"
    by (cases "row_department_name r") simp_all
  from h have 3: "literal_filter name \<longrightarrow>
            sublist (map sqlite_fold name) (map sqlite_fold (c_string (row_name r)))"
    using holds_name_contains by blast
  from h have 4: "literal_filter department \<longrightarrow>
            (\<exists>dn. row_department_name r = Some dn \<and>
                  sublist (map sqlite_fold department) (map sqlite_fold (c_string dn)))"
    using holds_department_contains by blast
  have 5: "handle_call_tool eng db ''search_employees''
             (a\<lparr>arg_name := Some name, arg_department := Some department, arg_limit := l\<rparr>) =
           Inr [Json_dumps (Json_employees rows)]"
    by (simp add: search_employees_tool_eq assms(3))
  from 1 2 3 4 5 show ?thesis by blast
qed

text \<open>The theorem on the scenario database, searching \<open>ad\<close> in \<open>gineer\<close>.\<close>

theorem search_employees_both_filters_witness:
  "''ad'' \<noteq> [] \<and> ''gineer'' \<noteq> [] \<and>
   EmployeeDBInterface_search_employees example_engine scenario_db (Some ''ad'')
       (Some ''gineer'') None = Inr [ada_row] \<and>
   ada_row \<in> set [ada_row] \<and>
   literal_filter ''ad'' \<and> literal_filter ''gineer'' \<and>
   sublist (map sqlite_fold ''ad'') (map sqlite_fold (c_string (row_name ada_row))) \<and>
   (\<exists>dn. row_department_name ada_row = Some dn \<and>
         sublist (map sqlite_fold ''gineer'') (map sqlite_fold (c_string dn)))"
proof -
  have 1: "''ad'' \<noteq> []" and 2: "''gineer'' \<noteq> []" by simp_all
  have 3: "EmployeeDBInterface_search_employees example_engine scenario_db (Some ''ad'')
       (Some ''gineer'') None = Inr [ada_row]"
    by code_simp
  have 4: "ada_row \<in> set [ada_row]" by simp
  have 5: "literal_filter ''ad''" and 6: "literal_filter ''gineer''"
    by (simp_all add: literal_filter_def)
  from search_employees_both_filters [OF 1 2 3 4, of no_arguments] 1 2 3 4 5 6
  show ?thesis by blast
qed

lemma search_conditions_fold:
  assumes "map sqlite_fold name = map sqlite_fold name'"
    and "map sqlite_fold department = map sqlite_fold department'"
  shows "list_all (\<lambda>c. holds c r) (search_conditions name department) =
         list_all (\<lambda>c. holds c r) (search_conditions name' department')"
proof -
  have n: "name = [] \<longleftrightarrow> name' = []" using assms(1) by (metis map_is_Nil_conv)
  have d: "department = [] \<longleftrightarrow> department' = []" using assms(2) by (metis map_is_Nil_conv)
  have ln: "sqlite_like (''%'' @ name @ ''%'') s = sqlite_like (''%'' @ name' @ ''%'') s" for s
    by (rule like_fold_pattern) (simp add: assms(1))
  have ld: "sqlite_like (''%'' @ department @ ''%'') s =
            sqlite_like (''%'' @ department' @ ''%'') s" for s
    by (rule like_fold_pattern) (simp add: assms(2))
  have hn: "holds (E_name_like (''%'' @ name @ ''%'')) r =
            holds (E_name_like (''%'' @ name' @ ''%'')) r"
    using ln by simp
  have hd: "holds (D_name_like (''%'' @ department @ ''%'')) r =
            holds (D_name_like (''%'' @ department' @ ''%'')) r"
    using ld by (cases "row_department_name r") simp_all
  show ?thesis using n d hn hd by (auto simp: search_conditions_def)
qed

lemma search_conditions_contains:
  assumes "literal_filter name" and "literal_filter department"
  shows "list_all (\<lambda>c. holds c r) (search_conditions name department) \<longleftrightarrow>
           sublist (map sqlite_fold name) (map sqlite_fold (c_string (row_name r))) \<and>
           (department \<noteq> [] \<longrightarrow>
              (\<exists>dn. row_department_name r = Some dn \<and>
                    sublist (map sqlite_fold department) (map sqlite_fold (c_string dn))))"
  using holds_name_contains [OF assms(1), of r] holds_department_contains [OF assms(2), of r]
  by (auto simp: search_conditions_def)

lemma search_conditions_simple:
  "\<not> too_complex (''%'' @ name @ ''%'') \<Longrightarrow> \<not> too_complex (''%'' @ department @ ''%'') \<Longrightarrow>
   \<not> list_ex (\<lambda>c. too_complex (pattern_of c)) (search_conditions name department)"
  by (simp add: search_conditions_def)

text \<open>
  C7, as stated, fails: on the scenario database the search for the name \<open>ADA\<close>
  returns the row of Ada, whose name contains that text only in another letter case.
\<close>

theorem search_employees_case_counterexample:
  "EmployeeDBInterface_search_employees example_engine scenario_db (Some ''ADA'') None None =
     Inr [ada_row] \<and>
   \<not> sublist ''ADA'' (row_name ada_row)"
  by code_simp

text \<open>
  C7, amended: the matching of both filters ignores the case of ASCII letters. For
  filters that the engine accepts (at most 50000 bytes with the two \<open>%\<close> added),
  two searches whose filters differ only in that case return the same; and for such
  filters without \<open>%\<close>, \<open>_\<close> and NUL and a limit that is a SQLite integer, the rows
  selected, before the limit, are exactly the joined rows whose name, read up to its
  first NUL, contains the name filter, and whose department name so read contains a
  non-empty department filter, up to the case of ASCII letters. The protocol server
  answers with the rows of the directly callable adapter.
\<close>

theorem search_employees_case:
  "(map sqlite_fold name = map sqlite_fold name' \<and>
    map sqlite_fold department = map sqlite_fold department' \<and>
    \<not> too_complex (''%'' @ name @ ''%'') \<and> \<not> too_complex (''%'' @ department @ ''%'') \<longrightarrow>
      EmployeeDBInterface_search_employees eng db (Some name) (Some department) l =
      EmployeeDBInterface_search_employees eng db (Some name') (Some department') l) \<and>
   (literal_filter name \<and> literal_filter department \<and>
    \<not> too_complex (''%'' @ name @ ''%'') \<and> \<not> too_complex (''%'' @ department @ ''%'') \<and>
    sqlite_integer (default_arg 50 l) \<longrightarrow>
      EmployeeDBInterface_search_employees eng db (Some name) (Some department) l =
        Inr (sql_limit (default_arg 50 l)
          (order_by_id
             (filter (\<lambda>r. sublist (map sqlite_fold name)
                            (map sqlite_fold (c_string (row_name r))) \<and>
                          (department \<noteq> [] \<longrightarrow>
                             (\<exists>dn. row_department_name r = Some dn \<and>
                                   sublist (map sqlite_fold department)
                                     (map sqlite_fold (c_string dn)))))
                (left_join db))))) \<and>
   handle_call_tool eng db ''search_employees''
       (a\<lparr>arg_name := Some name, arg_department := Some department, arg_limit := l\<rparr>) =
     (case EmployeeDBInterface_search_employees eng db (Some name) (Some department) l of
        Inl e \<Rightarrow> Inl e
      | Inr rows \<Rightarrow> Inr [Json_dumps (Json_employees rows)])"
proof (intro conjI impI)
  assume h: "map sqlite_fold name = map sqlite_fold name' \<and>
    map sqlite_fold department = map sqlite_fold department' \<and>
    \<not> too_complex (''%'' @ name @ ''%'') \<and> \<not> too_complex (''%'' @ department @ ''%'')"
  then have w: "sql_where (search_conditions name department) (left_join db) =
             sql_where (search_conditions name' department') (left_join db)"
    unfolding sql_where_def using search_conditions_fold [of name name' department department']
    by simp
  have "too_complex (''%'' @ name' @ ''%'') = too_complex (''%'' @ name @ ''%'')"
    by (rule too_complex_fold) (use h in simp)
  moreover have "too_complex (''%'' @ department' @ ''%'') =
      too_complex (''%'' @ department @ ''%'')"
    by (rule too_complex_fold) (use h in simp)
  ultimately have t: "\<not> too_complex (''%'' @ name' @ ''%'')"
    "\<not> too_complex (''%'' @ department' @ ''%'')"
    using h by simp_all
  have "select_search eng db (search_conditions name department) k =
        select_search eng db (search_conditions name' department') k" for k
    using search_conditions_simple [of name department] search_conditions_simple [OF t] h w
    by (simp add: select_search_def)
  then show "EmployeeDBInterface_search_employees eng db (Some name) (Some department) l =
      EmployeeDBInterface_search_employees eng db (Some name') (Some department') l"
    by (simp add: EmployeeDBInterface_search_employees_def Let_def default_arg_def)
next
  assume h: "literal_filter name \<and> literal_filter department \<and>
    \<not> too_complex (''%'' @ name @ ''%'') \<and> \<not> too_complex (''%'' @ department @ ''%'') \<and>
    sqlite_integer (default_arg 50 l)"
  then have "sql_where (search_conditions name department) (left_join db) =
      filter (\<lambda>r. sublist (map sqlite_fold name) (map sqlite_fold (c_string (row_name r))) \<and>
                          (department \<noteq> [] \<longrightarrow>
                             (\<exists>dn. row_department_name r = Some dn \<and>
                                   sublist (map sqlite_fold department)
                                     (map sqlite_fold (c_string dn)))))
                (left_join db)"
    unfolding sql_where_def using search_conditions_contains [of name department]
    by simp
  then show "EmployeeDBInterface_search_employees eng db (Some name) (Some department) l =
        Inr (sql_limit (default_arg 50 l)
          (order_by_id
             (filter (\<lambda>r. sublist (map sqlite_fold name)
                            (map sqlite_fold (c_string (row_name r))) \<and>
                          (department \<noteq> [] \<longrightarrow>
                             (\<exists>dn. row_department_name r = Some dn \<and>
                                   sublist (map sqlite_fold department)
                                     (map sqlite_fold (c_string dn)))))
                (left_join db))))"
    using h search_conditions_simple [of name department]
    by (simp add: EmployeeDBInterface_search_employees_def Let_def select_search_def
        default_arg_def)
qed (simp add: search_employees_tool_eq)

text \<open>The theorem on the scenario database, for the filters \<open>ADA\<close>, \<open>ENG\<close> and \<open>ada\<close>, \<open>eng\<close>.\<close>

theorem search_employees_case_witness:
  "map sqlite_fold ''ADA'' = map sqlite_fold ''ada'' \<and>
   map sqlite_fold ''ENG'' = map sqlite_fold ''eng'' \<and>
   \<not> too_complex (''%'' @ ''ADA'' @ ''%'') \<and> \<not> too_complex (''%'' @ ''ENG'' @ ''%'') \<and>
   EmployeeDBInterface_search_employees example_engine scenario_db (Some ''ADA'')
     (Some ''ENG'') None =
   EmployeeDBInterface_search_employees example_engine scenario_db (Some ''ada'')
     (Some ''eng'') None \<and>
   EmployeeDBInterface_search_employees example_engine scenario_db (Some ''ada'')
     (Some ''eng'') None = Inr [ada_row]"
proof -
  have 1: "map sqlite_fold ''ADA'' = map sqlite_fold ''ada'' \<and>
           map sqlite_fold ''ENG'' = map sqlite_fold ''eng'' \<and>
           \<not> too_complex (''%'' @ ''ADA'' @ ''%'') \<and> \<not> too_complex (''%'' @ ''ENG'' @ ''%'')"
    by code_simp
  have 2: "EmployeeDBInterface_search_employees example_engine scenario_db (Some ''ada'')
     (Some ''eng'') None = Inr [ada_row]"
    by code_simp
  from 1 search_employees_case [where name = "''ADA''" and name' = "''ada''"
      and department = "''ENG''" and department' = "''eng''" and db = scenario_db
      and l = None and eng = example_engine and a = no_arguments]
  have "EmployeeDBInterface_search_employees example_engine scenario_db (Some ''ADA'')
          (Some ''ENG'') None =
        EmployeeDBInterface_search_employees example_engine scenario_db (Some ''ada'')
          (Some ''eng'') None"
    by blast
  with 1 2 show ?thesis by blast
qed

section \<open>The two adapters\<close>

lemma validate_copies_agree:
  "EmployeeDBInterface_validate_sql_safety sql = validate_sql_safety sql"
  by (simp add: EmployeeDBInterface_validate_sql_safety_def validate_sql_safety_def)

lemma get_employee_tool_rows:
  "tool_rows (handle_call_tool eng db ''get_employee'' a) =
     (case arg_employee_id a of
        None \<Rightarrow> None
      | Some i \<Rightarrow> (case EmployeeDBInterface_get_employee db i of
                     Inl e \<Rightarrow> None
                   | Inr row \<Rightarrow> map_option Json_employee row))"
  by (simp add: handle_call_tool_def EmployeeDBInterface_get_employee_def tool_rows_def
      dumps_content_def split: option.splits list.splits)

lemma safe_query_tool_rows:
  "tool_rows (handle_call_tool eng db ''safe_query'' a) =
     (case arg_query a of
        None \<Rightarrow> None
      | Some q \<Rightarrow> (case EmployeeDBInterface_safe_query eng db q of
                     Inl e \<Rightarrow> None
                   | Inr rows \<Rightarrow>
                       if serializable (Json_rows rows) then Some (Json_rows rows)
                       else None))"
  by (simp add: handle_call_tool_def EmployeeDBInterface_safe_query_def tool_rows_def
      dumps_content_def validate_copies_agree split: option.splits sum.splits)

lemma list_departments_tool_eq:
  "handle_call_tool eng db ''list_departments'' a =
     Inr [Json_dumps (Json_departments (EmployeeDBInterface_list_departments db))]"
  by (simp add: handle_call_tool_def EmployeeDBInterface_list_departments_def
      dumps_content_def)

text \<open>
  Where the two adapters agree: for each of the six operations the protocol server
  answers with the rows that the directly callable adapter returns for the same
  arguments, and with no rows where that adapter returns none or raises, as long as
  the rows of \<open>safe_query\<close> hold no BLOB.
\<close>

lemma adapters_agree_up_to_blob:
  "tool_rows (handle_call_tool eng db ''list_employees'' a) =
     (case EmployeeDBInterface_list_employees db (arg_limit a) of
        Inl e \<Rightarrow> None | Inr rows \<Rightarrow> Some (Json_employees rows)) \<and>
   (arg_employee_id a = Some i \<longrightarrow>
      tool_rows (handle_call_tool eng db ''get_employee'' a) =
        (case EmployeeDBInterface_get_employee db i of
           Inl e \<Rightarrow> None | Inr row \<Rightarrow> map_option Json_employee row)) \<and>
   tool_rows (handle_call_tool eng db ''search_employees'' a) =
     (case EmployeeDBInterface_search_employees eng db (arg_name a) (arg_department a)
             (arg_limit a) of
        Inl e \<Rightarrow> None | Inr rows \<Rightarrow> Some (Json_employees rows)) \<and>
   tool_rows (handle_call_tool eng db ''list_departments'' a) =
     Some (Json_departments (EmployeeDBInterface_list_departments db)) \<and>
   tool_rows (handle_call_tool eng db ''get_employee_stats'' a) =
     (case EmployeeDBInterface_get_employee_stats eng db (arg_department_id a) of
        Inl e \<Rightarrow> None | Inr s \<Rightarrow> Some (Json_stats s)) \<and>
   (arg_query a = Some q \<longrightarrow>
      tool_rows (handle_call_tool eng db ''safe_query'' a) =
        (case EmployeeDBInterface_safe_query eng db q of
           Inl e \<Rightarrow> None
         | Inr rows \<Rightarrow> if serializable (Json_rows rows) then Some (Json_rows rows) else None))"
proof (intro conjI impI)
  show "tool_rows (handle_call_tool eng db ''list_employees'' a) =
     (case EmployeeDBInterface_list_employees db (arg_limit a) of
        Inl e \<Rightarrow> None | Inr rows \<Rightarrow> Some (Json_employees rows))"
    by (simp add: list_employees_tool_eq tool_rows_def split: sum.splits)
  show "tool_rows (handle_call_tool eng db ''search_employees'' a) =
     (case EmployeeDBInterface_search_employees eng db (arg_name a) (arg_department a)
             (arg_limit a) of
        Inl e \<Rightarrow> None | Inr rows \<Rightarrow> Some (Json_employees rows))"
    by (simp add: search_employees_tool_eq tool_rows_def split: sum.splits)
  show "tool_rows (handle_call_tool eng db ''list_departments'' a) =
     Some (Json_departments (EmployeeDBInterface_list_departments db))"
    by (simp add: list_departments_tool_eq tool_rows_def)
  show "tool_rows (handle_call_tool eng db ''get_employee_stats'' a) =
     (case EmployeeDBInterface_get_employee_stats eng db (arg_department_id a) of
        Inl e \<Rightarrow> None | Inr s \<Rightarrow> Some (Json_stats s))"
    by (simp add: stats_tool_eq tool_rows_def split: sum.splits)
qed (simp_all add: get_employee_tool_rows safe_query_tool_rows)

text \<open>
  C8 does not hold of the code: the statement \<open>select zeroblob(1) as b\<close> passes both
  copies of the validator and yields one row with a BLOB; the directly callable
  adapter returns that row, while the protocol server raises \<open>TypeError\<close> in
  \<open>json.dumps\<close>, which its handler for \<open>sqlite3.Error\<close> does not catch, and so
  answers with no rows.
\<close>

theorem safe_query_blob_divergence:
  "validate_sql_safety ''select zeroblob(1) as b'' \<and>
   EmployeeDBInterface_validate_sql_safety ''select zeroblob(1) as b'' \<and>
   EmployeeDBInterface_safe_query example_engine scenario_db ''select zeroblob(1) as b'' =
     Inr [[(''b'', Sql_blob [CHR 0x00])]] \<and>
   handle_call_tool example_engine scenario_db ''safe_query''
       (no_arguments\<lparr>arg_query := Some ''select zeroblob(1) as b''\<rparr>) = Inl TypeError \<and>
   tool_rows (handle_call_tool example_engine scenario_db ''safe_query''
       (no_arguments\<lparr>arg_query := Some ''select zeroblob(1) as b''\<rparr>)) = None"
  by code_simp

end
